theory Spec2Isabelle
  imports Complex_Main
begin

section \<open>Swerve drivetrain of the 2024 robot: embedding\<close>

text \<open>
  The development embeds \<^verbatim>\<open>src/subsystems/swerve.py\<close> and
  \<^verbatim>\<open>src/subsystems/drivetrain.py\<close>. Python floats are idealised as
  \<^typ>\<open>real\<close>: every statement below is about exact arithmetic, rounding is not
  modelled. Angles are kept in degrees, as the code does through
  \<^verbatim>\<open>Rotation2d.fromDegrees\<close> and \<^verbatim>\<open>.degrees()\<close>: the value of a
  \<^verbatim>\<open>Rotation2d\<close> built from degrees is not wrapped, so a rotation is any real.
  Hardware is state: a motor controller is the sensor values the code reads and the last
  demand the code wrote.
\<close>

subsection \<open>Errors and constants\<close>

datatype error = ZeroDivisionError

text \<open>
  \<^verbatim>\<open>constants.py\<close> is not among the sources; the values the code reads from it are
  parameters. Python raises \<^verbatim>\<open>ZeroDivisionError\<close> on a zero divisor, so every
  division by one of them is guarded.
\<close>

record constants =
  kGearRatio :: real
  kMaxSpeed :: real
  kWheelSize :: real
  karbFF :: real

subsection \<open>Python arithmetic on floats\<close>

text \<open>\<^verbatim>\<open>x % 360\<close> on floats: the result has the sign of the divisor.\<close>

definition fmod360 :: "real \<Rightarrow> real" where
  "fmod360 x = x - 360 * of_int \<lfloor>x / 360\<rfloor>"

text \<open>\<^verbatim>\<open>int(x)\<close> truncates towards zero.\<close>

definition py_int :: "real \<Rightarrow> int" where
  "py_int x = (if 0 \<le> x then \<lfloor>x\<rfloor> else \<lceil>x\<rceil>)"

text \<open>
  The loop of \<^verbatim>\<open>changeDirection\<close>:
  \<^verbatim>\<open>while targetAngleDist > 180: targetAngleDist -= 360\<close>.
\<close>

function subtract360 :: "real \<Rightarrow> real" where
  "subtract360 d = (if d > 180 then subtract360 (d - 360) else d)"
  by pat_completeness auto
termination
proof (relation "measure (\<lambda>d. nat \<lceil>d / 360\<rceil>)")
  show "wf (measure (\<lambda>d::real. nat \<lceil>d / 360\<rceil>))" by simp
next
  fix d :: real
  assume d: "180 < d"
  have "\<lceil>(d - 360) / 360\<rceil> = \<lceil>d / 360\<rceil> - 1"
    by (simp add: diff_divide_distrib)
  moreover from d have "0 < \<lceil>d / 360\<rceil>" by (simp add: ceiling_less_iff)
  ultimately show "(d - 360, d) \<in> measure (\<lambda>d. nat \<lceil>d / 360\<rceil>)"
    by simp
qed

declare subtract360.simps [simp del]

subsection \<open>Module states\<close>

text \<open>
  \<^verbatim>\<open>SwerveModuleState\<close>: a signed speed and an angle (degrees). The class is
  the library's; the code reads its two fields.
\<close>

record SwerveModuleState =
  speed :: real
  angle :: real

text \<open>
  Modelled from the spec: \<^verbatim>\<open>SwerveModuleState.optimize\<close> belongs to the
  kinematics library, which is not among the sources. Spec 4.1: the target angle may be
  replaced by its antipodal angle (rotate by 180 degrees) paired with negated speed,
  whichever requires less total rotation from the current angle. The difference of two
  rotations is taken as a rotation, that is in \<open>(-180, 180]\<close>, and so is the rotated
  target.
\<close>

definition wrap180 :: "real \<Rightarrow> real" where
  "wrap180 x = x - 360 * of_int \<lceil>(x - 180) / 360\<rceil>"

definition optimize :: "SwerveModuleState \<Rightarrow> real \<Rightarrow> SwerveModuleState" where
  "optimize desiredState currentAngle =
     (let delta = wrap180 (angle desiredState - currentAngle)
      in if \<bar>delta\<bar> > 90
         then \<lparr>speed = - speed desiredState, angle = wrap180 (angle desiredState + 180)\<rparr>
         else desiredState)"

subsection \<open>The module controller of swerve.py\<close>

text \<open>
  \<^verbatim>\<open>SwerveModule\<close>: the two sensor positions and the drive velocity are what
  \<^verbatim>\<open>getSelectedSensorPosition\<close> and \<^verbatim>\<open>getSelectedSensorVelocity\<close>
  return; \<open>driveOutput\<close>, \<open>driveFeedForward\<close> and \<open>directionTarget\<close> are the last
  demands written with \<^verbatim>\<open>set\<close>; \<open>simRawPosition\<close> is what
  \<^verbatim>\<open>setIntegratedSensorRawPosition\<close> received. A demand does not change a
  sensor value: the sensors are read again from the hardware at the next call.
\<close>

record SwerveModule =
  directionSensorPosition :: real
  driveSensorVelocity :: real
  driveSensorPosition :: real
  arbFF :: real
  simDrivePos :: real
  driveOutput :: real
  driveFeedForward :: real
  directionTarget :: real
  simRawPosition :: int

definition getAngle :: "constants \<Rightarrow> SwerveModule \<Rightarrow> error + real" where
  "getAngle c m =
     (if kGearRatio c = 0 then Inl ZeroDivisionError
      else Inr (directionSensorPosition m / kGearRatio c * (360 / 2048)))"

definition getState :: "constants \<Rightarrow> SwerveModule \<Rightarrow> error + SwerveModuleState" where
  "getState c m =
     (if kGearRatio c = 0 then Inl ZeroDivisionError
      else Inr \<lparr>speed = driveSensorVelocity m / kGearRatio c * 10 * kWheelSize c * pi,
                angle = directionSensorPosition m / kGearRatio c * (360 / 2048)\<rparr>)"

text \<open>The two steps of \<^verbatim>\<open>changeDirection\<close> on the angle difference.\<close>

definition targetAngleDist :: "real \<Rightarrow> real" where
  "targetAngleDist angleDiff =
     (let d = \<bar>angleDiff\<bar>
      in if d > 180 then \<bar>subtract360 d\<bar> else d)"

definition wrappedAngleDiff :: "real \<Rightarrow> real" where
  "wrappedAngleDiff angleDiff =
     (if angleDiff < 0 \<or> angleDiff \<ge> 360 then fmod360 angleDiff else angleDiff)"

definition changeDirection :: "constants \<Rightarrow> SwerveModule \<Rightarrow> real \<Rightarrow> error + SwerveModule" where
  "changeDirection c m rotation =
     (case getAngle c m of
        Inl e \<Rightarrow> Inl e
      | Inr current \<Rightarrow>
          let angleDiff = rotation - current;
              changeInTalonUnits = targetAngleDist angleDiff / (360 / 2048);
              finalPos = directionSensorPosition m / kGearRatio c;
              finalPos' = (if wrappedAngleDiff angleDiff > 180
                           then finalPos - changeInTalonUnits
                           else finalPos + changeInTalonUnits)
          in Inr (m\<lparr>directionTarget := finalPos' * kGearRatio c,
                    simRawPosition := py_int (finalPos' * kGearRatio c)\<rparr>))"

definition setDesiredState ::
  "constants \<Rightarrow> SwerveModule \<Rightarrow> SwerveModuleState \<Rightarrow> bool \<Rightarrow> error + SwerveModule" where
  "setDesiredState c m desiredState opt =
     (case getState c m of
        Inl e \<Rightarrow> Inl e
      | Inr currentState \<Rightarrow>
          let desiredState' = (if opt then optimize desiredState (angle currentState)
                               else desiredState);
              ff = (if speed desiredState' < 0 then - arbFF m else arbFF m)
          in if kMaxSpeed c = 0 then Inl ZeroDivisionError
             else changeDirection c
                    (m\<lparr>driveOutput := speed desiredState' / kMaxSpeed c,
                       driveFeedForward := ff\<rparr>)
                    (angle desiredState'))"

text \<open>
  The steering rotation a demand stands for, in degrees: the angle of the demanded
  position under the conversion of \<^verbatim>\<open>getAngle\<close>, minus the angle of the sensor
  position the call started from.
\<close>

definition commandedRotation :: "constants \<Rightarrow> SwerveModule \<Rightarrow> SwerveModule \<Rightarrow> real" where
  "commandedRotation c m m' =
     directionTarget m' / kGearRatio c * (360 / 2048)
       - directionSensorPosition m / kGearRatio c * (360 / 2048)"

subsection \<open>The kinematics library\<close>

text \<open>
  The classes \<^verbatim>\<open>ChassisSpeeds\<close>, \<^verbatim>\<open>Translation2d\<close> and
  \<^verbatim>\<open>SwerveDrive4Kinematics\<close> come from the kinematics library, which is not
  among the sources; the code calls them. A kinematics object is its four module locations,
  in the order left front, left rear, right front, right rear.
\<close>

record ChassisSpeeds =
  vx :: real
  vy :: real
  omega :: real

type_synonym Translation2d = "real \<times> real"

type_synonym 'a quad = "'a \<times> 'a \<times> 'a \<times> 'a"

fun map4 :: "('a \<Rightarrow> 'b) \<Rightarrow> 'a quad \<Rightarrow> 'b quad" where
  "map4 f (a, b, c, d) = (f a, f b, f c, f d)"

fun sum4 :: "('a \<Rightarrow> real) \<Rightarrow> 'a quad \<Rightarrow> real" where
  "sum4 f (a, b, c, d) = f a + f b + f c + f d"

fun zip4 :: "'a quad \<Rightarrow> 'b quad \<Rightarrow> ('a \<times> 'b) quad" where
  "zip4 (a, b, c, d) (a', b', c', d') = ((a, a'), (b, b'), (c, c'), (d, d'))"

fun all4 :: "('a \<Rightarrow> bool) \<Rightarrow> 'a quad \<Rightarrow> bool" where
  "all4 P (a, b, c, d) = (P a \<and> P b \<and> P c \<and> P d)"

text \<open>
  The angle of a vector, in radians in \<open>(-pi, pi]\<close>, and the rotation
  \<^verbatim>\<open>Rotation2d(x, y)\<close> in degrees; cosine and sine of a rotation given in degrees.
\<close>

definition atan2 :: "real \<Rightarrow> real \<Rightarrow> real" where
  "atan2 y x =
     (if x > 0 then arctan (y / x)
      else if x < 0 then (if y \<ge> 0 then arctan (y / x) + pi else arctan (y / x) - pi)
      else if y > 0 then pi / 2
      else if y < 0 then - pi / 2
      else 0)"

definition rotationOf :: "real \<Rightarrow> real \<Rightarrow> real" where
  "rotationOf x y = atan2 y x * 180 / pi"

definition cosDeg :: "real \<Rightarrow> real" where
  "cosDeg a = cos (a * pi / 180)"

definition sinDeg :: "real \<Rightarrow> real" where
  "sinDeg a = sin (a * pi / 180)"

text \<open>
  Modelled from the spec: \<^verbatim>\<open>toSwerveModuleStates\<close> of the kinematics library.
  Spec 4.2: each module's velocity vector is the robot's translational velocity plus the
  angular velocity crossed with the module's position relative to the centre of rotation,
  converted to magnitude and angle.
\<close>

definition moduleVelocity :: "ChassisSpeeds \<Rightarrow> Translation2d \<Rightarrow> Translation2d \<Rightarrow> real \<times> real" where
  "moduleVelocity v centre loc =
     (vx v - omega v * (snd loc - snd centre), vy v + omega v * (fst loc - fst centre))"

definition polarState :: "real \<times> real \<Rightarrow> SwerveModuleState" where
  "polarState w = \<lparr>speed = sqrt ((fst w)\<^sup>2 + (snd w)\<^sup>2), angle = rotationOf (fst w) (snd w)\<rparr>"

definition toSwerveModuleStates ::
  "Translation2d quad \<Rightarrow> ChassisSpeeds \<Rightarrow> Translation2d \<Rightarrow> SwerveModuleState quad" where
  "toSwerveModuleStates locs v centre = map4 (\<lambda>loc. polarState (moduleVelocity v centre loc)) locs"

text \<open>
  Modelled from the spec: \<^verbatim>\<open>toChassisSpeeds\<close> of the kinematics library. Spec 4.2:
  the least-squares inverse of the map above. The eight equations
  \<open>vx - omega * y\<^sub>i = speed\<^sub>i * cos angle\<^sub>i\<close>, \<open>vy + omega * x\<^sub>i = speed\<^sub>i * sin angle\<^sub>i\<close>
  in the three unknowns have the normal equations
  \<open>4 vx - Sy omega = r1\<close>, \<open>4 vy + Sx omega = r2\<close>, \<open>- Sy vx + Sx vy + Q omega = r3\<close>,
  solved here by Cramer's rule.
\<close>

definition det3 ::
  "real \<Rightarrow> real \<Rightarrow> real \<Rightarrow> real \<Rightarrow> real \<Rightarrow> real \<Rightarrow> real \<Rightarrow> real \<Rightarrow> real \<Rightarrow> real" where
  "det3 a b c d e f g h i = a * (e * i - f * h) - b * (d * i - f * g) + c * (d * h - e * g)"

definition stateX :: "SwerveModuleState \<Rightarrow> real" where
  "stateX s = speed s * cosDeg (angle s)"

definition stateY :: "SwerveModuleState \<Rightarrow> real" where
  "stateY s = speed s * sinDeg (angle s)"

definition normalDet :: "Translation2d quad \<Rightarrow> real" where
  "normalDet locs =
     (let sx = sum4 fst locs; sy = sum4 snd locs; q = sum4 (\<lambda>l. (fst l)\<^sup>2 + (snd l)\<^sup>2) locs
      in det3 4 0 (- sy) 0 4 sx (- sy) sx q)"

definition toChassisSpeeds :: "Translation2d quad \<Rightarrow> SwerveModuleState quad \<Rightarrow> ChassisSpeeds" where
  "toChassisSpeeds locs states =
     (let sx = sum4 fst locs; sy = sum4 snd locs; q = sum4 (\<lambda>l. (fst l)\<^sup>2 + (snd l)\<^sup>2) locs;
          r1 = sum4 stateX states;
          r2 = sum4 stateY states;
          r3 = sum4 (\<lambda>(l, s). fst l * stateY s - snd l * stateX s) (zip4 locs states);
          d = det3 4 0 (- sy) 0 4 sx (- sy) sx q
      in \<lparr>vx = det3 r1 0 (- sy) r2 4 sx r3 sx q / d,
          vy = det3 4 r1 (- sy) 0 r2 sx (- sy) r3 q / d,
          omega = det3 4 0 r1 0 4 r2 (- sy) sx r3 / d\<rparr>)"

text \<open>
  Modelled from the spec: \<^verbatim>\<open>desaturateWheelSpeeds\<close> of the kinematics library.
  Spec 4.2: if any module's commanded speed exceeds the maximum, all four speeds are scaled
  by the same ratio. Speeds are compared by magnitude, and the ratio is the maximum over
  the largest magnitude.
\<close>

definition realMaxSpeed :: "SwerveModuleState quad \<Rightarrow> real" where
  "realMaxSpeed states =
     (case states of (a, b, c, d) \<Rightarrow>
        max (max \<bar>speed a\<bar> \<bar>speed b\<bar>) (max \<bar>speed c\<bar> \<bar>speed d\<bar>))"

definition desaturateWheelSpeeds :: "SwerveModuleState quad \<Rightarrow> real \<Rightarrow> SwerveModuleState quad" where
  "desaturateWheelSpeeds states attainableMaxSpeed =
     (let r = realMaxSpeed states
      in if r > attainableMaxSpeed
         then map4 (\<lambda>s. s\<lparr>speed := speed s / r * attainableMaxSpeed\<rparr>) states
         else states)"

text \<open>
  Modelled from the spec: \<^verbatim>\<open>ChassisSpeeds.fromFieldRelativeSpeeds\<close> of the
  kinematics library. Spec 4.4: the velocity is rotated into the robot frame using the
  current heading; the angular velocity is kept. The translation is turned here by minus
  the heading. The direction of the turn is the library's convention and cannot be read
  off the sources: no statement below depends on it.
\<close>

definition fromFieldRelativeSpeeds :: "ChassisSpeeds \<Rightarrow> real \<Rightarrow> ChassisSpeeds" where
  "fromFieldRelativeSpeeds v robotAngle =
     \<lparr>vx = vx v * cosDeg robotAngle + vy v * sinDeg robotAngle,
      vy = - vx v * sinDeg robotAngle + vy v * cosDeg robotAngle,
      omega = omega v\<rparr>"

subsection \<open>The drivetrain of swerve.py\<close>

text \<open>
  \<^verbatim>\<open>Swerve\<close>: the four modules, the stored \<open>chassisSpeed\<close>, the simulated heading
  \<open>targetRad\<close>, and the heading the navX reports (degrees). The kinematics object is the
  class attribute of line 144.
\<close>

record Swerve =
  leftFront :: SwerveModule
  leftRear :: SwerveModule
  rightFront :: SwerveModule
  rightRear :: SwerveModule
  chassisSpeed :: ChassisSpeeds
  targetRad :: real
  navXAngle :: real

definition kinematics :: "Translation2d quad" where
  "kinematics = ((1, 1), (- 1, 1), (1, - 1), (- 1, - 1))"

definition setModuleStates ::
  "constants \<Rightarrow> Swerve \<Rightarrow> SwerveModuleState quad \<Rightarrow> bool \<Rightarrow> error + Swerve" where
  "setModuleStates c sw moduleStates optimizeAngle =
     (case desaturateWheelSpeeds moduleStates (kMaxSpeed c) of (s0, s1, s2, s3) \<Rightarrow>
        (case setDesiredState c (leftFront sw) s0 optimizeAngle of
           Inl e \<Rightarrow> Inl e
         | Inr lf \<Rightarrow>
        (case setDesiredState c (leftRear sw) s1 optimizeAngle of
           Inl e \<Rightarrow> Inl e
         | Inr lr \<Rightarrow>
        (case setDesiredState c (rightFront sw) s2 optimizeAngle of
           Inl e \<Rightarrow> Inl e
         | Inr rf \<Rightarrow>
        (case setDesiredState c (rightRear sw) s3 optimizeAngle of
           Inl e \<Rightarrow> Inl e
         | Inr rr \<Rightarrow>
             Inr (sw\<lparr>leftFront := lf, leftRear := lr, rightFront := rf, rightRear := rr\<rparr>))))))"

text \<open>
  \<^verbatim>\<open>drive\<close> in two steps: the states it computes (\<open>desatStates\<close> in the source) and
  the dispatch. \<open>isReal\<close> is \<^verbatim>\<open>RobotBase.isReal()\<close>. In simulation the source passes
  \<open>targetRad\<close> to \<^verbatim>\<open>Rotation2d.fromDegrees\<close>.
\<close>

definition desatStates :: "constants \<Rightarrow> bool \<Rightarrow> Swerve \<Rightarrow> ChassisSpeeds \<Rightarrow> bool \<Rightarrow> SwerveModuleState quad" where
  "desatStates c isReal sw speeds fieldRelative =
     (let states =
            (if fieldRelative
             then (if isReal
                   then toSwerveModuleStates kinematics
                          (fromFieldRelativeSpeeds speeds (navXAngle sw)) (0, 0)
                   else toSwerveModuleStates kinematics
                          (fromFieldRelativeSpeeds speeds (targetRad sw)) (0, 0))
             else toSwerveModuleStates kinematics speeds (0, 0))
      in desaturateWheelSpeeds states (kMaxSpeed c))"

definition drive :: "constants \<Rightarrow> bool \<Rightarrow> Swerve \<Rightarrow> ChassisSpeeds \<Rightarrow> bool \<Rightarrow> error + Swerve" where
  "drive c isReal sw speeds fieldRelative =
     (case setModuleStates c (sw\<lparr>chassisSpeed := speeds\<rparr>)
             (desatStates c isReal sw speeds fieldRelative) True of
        Inl e \<Rightarrow> Inl e
      | Inr sw' \<Rightarrow>
          Inr (if \<not> isReal then sw'\<lparr>targetRad := targetRad sw' + omega speeds / 50\<rparr> else sw'))"

text \<open>
  In simulation \<^verbatim>\<open>periodic\<close> (line 257) hands \<^verbatim>\<open>Rotation2d(self.targetRad)\<close> to
  the odometry, and \<^verbatim>\<open>drive\<close> (line 224) adds \<open>omega / 50\<close> to it: \<open>targetRad\<close> is
  the simulated heading in radians. The same heading in degrees:
\<close>

definition simulatedHeading :: "Swerve \<Rightarrow> real" where
  "simulatedHeading sw = targetRad sw * 180 / pi"

definition getChassisSpeeds :: "Swerve \<Rightarrow> ChassisSpeeds" where
  "getChassisSpeeds sw = chassisSpeed sw"

text \<open>
  The states the four modules measure, as \<^verbatim>\<open>getState\<close> returns them, in the order
  of the kinematics.
\<close>

definition measuredStates :: "constants \<Rightarrow> Swerve \<Rightarrow> error + SwerveModuleState quad" where
  "measuredStates c sw =
     (case getState c (leftFront sw) of Inl e \<Rightarrow> Inl e | Inr s0 \<Rightarrow>
     (case getState c (leftRear sw) of Inl e \<Rightarrow> Inl e | Inr s1 \<Rightarrow>
     (case getState c (rightFront sw) of Inl e \<Rightarrow> Inl e | Inr s2 \<Rightarrow>
     (case getState c (rightRear sw) of Inl e \<Rightarrow> Inl e | Inr s3 \<Rightarrow>
        Inr (s0, s1, s2, s3)))))"

subsection \<open>The drivetrain of drivetrain.py\<close>

text \<open>
  \<^verbatim>\<open>SwerveModulePosition\<close> and \<^verbatim>\<open>Pose2d\<close> are classes of the geometry
  library; only their fields matter here (the angle of a position is called \<open>direction\<close>,
  the name \<open>angle\<close> being taken by the module state).
\<close>

record SwerveModulePosition =
  distance :: real
  direction :: real

record Pose2d =
  pose_x :: real
  pose_y :: real
  pose_rotation :: real

text \<open>
  Modelled from the spec: \<^verbatim>\<open>subsystems/module.py\<close>, the module controller that
  drivetrain.py imports, is not among the sources. Spec 4.1: \<^verbatim>\<open>getState\<close> reads
  the sensors and gives the measured speed and angle, \<^verbatim>\<open>getPosition\<close> the
  accumulated distance and the angle, \<^verbatim>\<open>setDesiredState\<close> commands the actuators
  towards a state. A module is what its sensors measure and the state it was last asked
  for; asking for a state does not change what the sensors measure.
\<close>

record Module =
  measuredState :: SwerveModuleState
  measuredPosition :: SwerveModulePosition
  requestedState :: "SwerveModuleState option"

definition get_state :: "Module \<Rightarrow> SwerveModuleState" where
  "get_state m = measuredState m"

definition get_position :: "Module \<Rightarrow> SwerveModulePosition" where
  "get_position m = measuredPosition m"

definition set_desired_state :: "Module \<Rightarrow> SwerveModuleState \<Rightarrow> Module" where
  "set_desired_state m s = m\<lparr>requestedState := Some s\<rparr>"

text \<open>
  The pose estimator \<^verbatim>\<open>SwerveDrive4PoseEstimator\<close> is a library object with a
  state of its own. Its state is a type parameter and its methods are parameters; the
  drivetrain only decides which of them are called, and with what.
\<close>

record 'e PoseEstimator =
  update :: "'e \<Rightarrow> real \<Rightarrow> SwerveModulePosition quad \<Rightarrow> 'e"
  setVisionMeasurementStdDevs :: "'e \<Rightarrow> real \<times> real \<times> real \<Rightarrow> 'e"
  addVisionMeasurement :: "'e \<Rightarrow> Pose2d \<Rightarrow> real \<Rightarrow> 'e"
  getEstimatedPosition :: "'e \<Rightarrow> Pose2d"
  resetPosition :: "'e \<Rightarrow> real \<Rightarrow> SwerveModulePosition quad \<Rightarrow> Pose2d \<Rightarrow> 'e"

text \<open>
  What \<^verbatim>\<open>get_botpose_estimate_wpiblue_megatag2\<close> returns. The vision source is a
  parameter: a function from the orientation it was last told to its estimate.
\<close>

record PoseEstimate =
  pose :: Pose2d
  timestamp_seconds :: real
  tag_count :: int

text \<open>The values drivetrain.py reads from the missing \<^verbatim>\<open>constants.py\<close>.\<close>

record DrivetrainConstants =
  moduleLocations :: "Translation2d quad"
  k_max_attainable_speed :: real
  k_standard_deviations :: "real \<times> real \<times> real"

text \<open>
  \<^verbatim>\<open>Drivetrain\<close>: the four modules, the estimator, the simulated gyro angle, what the
  navX reports (heading in degrees, rate), and two outputs: the pose shown on the field
  widget and the orientation sent to the vision source. The wheel poses and the yaw number
  that \<^verbatim>\<open>periodic\<close> also publishes are display only and left out.
\<close>

record 'e Drivetrain =
  left_front :: Module
  left_rear :: Module
  right_front :: Module
  right_rear :: Module
  odometry :: 'e
  gyro_sim :: real
  navxRotation :: real
  navxRate :: real
  fieldRobotPose :: Pose2d
  limelightOrientation :: real

definition get_yaw :: "bool \<Rightarrow> 'e Drivetrain \<Rightarrow> real" where
  "get_yaw isReal d = (if isReal then navxRotation d else gyro_sim d)"

definition simulate_gyro :: "'e Drivetrain \<Rightarrow> real \<Rightarrow> 'e Drivetrain" where
  "simulate_gyro d degrees_per_second = d\<lparr>gyro_sim := gyro_sim d + degrees_per_second * (2 / 100)\<rparr>"

definition modulePositions :: "'e Drivetrain \<Rightarrow> SwerveModulePosition quad" where
  "modulePositions d =
     (get_position (left_front d), get_position (left_rear d),
      get_position (right_front d), get_position (right_rear d))"

text \<open>
  \<^verbatim>\<open>periodic\<close>: first the odometry update, then the vision step. \<open>odometryUpdate\<close> is
  the estimator after the first statement of \<^verbatim>\<open>periodic\<close>, that is before the
  vision step.
\<close>

definition odometryUpdate :: "'e PoseEstimator \<Rightarrow> bool \<Rightarrow> 'e Drivetrain \<Rightarrow> 'e" where
  "odometryUpdate est isReal d = update est (odometry d) (get_yaw isReal d) (modulePositions d)"

definition periodic ::
  "'e PoseEstimator \<Rightarrow> (real \<Rightarrow> PoseEstimate) \<Rightarrow> DrivetrainConstants \<Rightarrow> bool
     \<Rightarrow> 'e Drivetrain \<Rightarrow> 'e Drivetrain" where
  "periodic est limelight k isReal d =
     (let o1 = odometryUpdate est isReal d;
          sent = pose_rotation (getEstimatedPosition est o1);
          mega_tag2 = limelight sent;
          o2 = (if \<bar>navxRate d\<bar> < 720 \<and> tag_count mega_tag2 > 0 \<and> isReal
                then addVisionMeasurement est
                       (setVisionMeasurementStdDevs est o1 (k_standard_deviations k))
                       (pose mega_tag2) (timestamp_seconds mega_tag2)
                else o1)
      in d\<lparr>odometry := o2, fieldRobotPose := getEstimatedPosition est o2,
            limelightOrientation := sent\<rparr>)"

definition get_robot_speed :: "DrivetrainConstants \<Rightarrow> 'e Drivetrain \<Rightarrow> ChassisSpeeds" where
  "get_robot_speed k d =
     toChassisSpeeds (moduleLocations k)
       (get_state (left_front d), get_state (left_rear d),
        get_state (right_front d), get_state (right_rear d))"

definition set_desired_module_states ::
  "DrivetrainConstants \<Rightarrow> 'e Drivetrain \<Rightarrow> SwerveModuleState quad \<Rightarrow> 'e Drivetrain" where
  "set_desired_module_states k d states =
     (case desaturateWheelSpeeds states (k_max_attainable_speed k) of
        (left_front_state, left_rear_state, right_front_state, right_rear_state) \<Rightarrow>
          d\<lparr>left_front := set_desired_state (left_front d) left_front_state,
            left_rear := set_desired_state (left_rear d) left_rear_state,
            right_front := set_desired_state (right_front d) right_front_state,
            right_rear := set_desired_state (right_rear d) right_rear_state\<rparr>)"

text \<open>
  \<^verbatim>\<open>ChassisSpeeds.discretize\<close> is a library function of which the spec gives the
  purpose (4.2) and no formula: it is the parameter \<open>discretize\<close>. \<^verbatim>\<open>omega_dps\<close> is
  the angular velocity in degrees per second.
\<close>

definition omega_dps :: "ChassisSpeeds \<Rightarrow> real" where
  "omega_dps v = omega v * 180 / pi"

definition drive_robot_centric ::
  "(ChassisSpeeds \<Rightarrow> real \<Rightarrow> ChassisSpeeds) \<Rightarrow> DrivetrainConstants \<Rightarrow> 'e Drivetrain
     \<Rightarrow> ChassisSpeeds \<Rightarrow> Translation2d \<Rightarrow> 'e Drivetrain" where
  "drive_robot_centric discretize k d speeds center_of_rotation =
     (let speeds1 = discretize speeds (2 / 100);
          module_speeds = toSwerveModuleStates (moduleLocations k) speeds1 center_of_rotation
      in simulate_gyro (set_desired_module_states k d module_speeds) (omega_dps speeds1))"

definition drive_field_relative ::
  "(ChassisSpeeds \<Rightarrow> real \<Rightarrow> ChassisSpeeds) \<Rightarrow> DrivetrainConstants \<Rightarrow> bool \<Rightarrow> 'e Drivetrain
     \<Rightarrow> ChassisSpeeds \<Rightarrow> Translation2d \<Rightarrow> 'e Drivetrain" where
  "drive_field_relative discretize k isReal d speeds center_of_rotation =
     (let speeds1 = discretize speeds (2 / 100);
          speeds2 = fromFieldRelativeSpeeds speeds1 (get_yaw isReal d);
          module_speeds = toSwerveModuleStates (moduleLocations k) speeds2 center_of_rotation
      in simulate_gyro (set_desired_module_states k d module_speeds) (omega_dps speeds2))"

text \<open>The states the four modules were last asked for.\<close>

definition dispatchedStates :: "'e Drivetrain \<Rightarrow> SwerveModuleState option quad" where
  "dispatchedStates d =
     (requestedState (left_front d), requestedState (left_rear d),
      requestedState (right_front d), requestedState (right_rear d))"

subsection \<open>Test values\<close>

text \<open>
  Values for the constants that \<^verbatim>\<open>constants.py\<close> would give, and a module whose
  steering sensor reads a given angle; they are used to run the definitions on concrete
  inputs.
\<close>

definition exampleConstants :: constants where
  "exampleConstants = \<lparr>kGearRatio = 150 / 7, kMaxSpeed = 4, kWheelSize = 1 / 10, karbFF = 1 / 20\<rparr>"

definition moduleAt :: "constants \<Rightarrow> real \<Rightarrow> SwerveModule" where
  "moduleAt c degrees =
     \<lparr>directionSensorPosition = degrees / (360 / 2048) * kGearRatio c,
      driveSensorVelocity = 0, driveSensorPosition = 0, arbFF = karbFF c, simDrivePos = 0,
      driveOutput = 0, driveFeedForward = 0, directionTarget = 0, simRawPosition = 0\<rparr>"

text \<open>Four module states with given speeds, all at angle 0.\<close>

definition atSpeeds :: "real quad \<Rightarrow> SwerveModuleState quad" where
  "atSpeeds v = map4 (\<lambda>x. \<lparr>speed = x, angle = 0\<rparr>) v"

text \<open>A drivetrain at rest whose modules all read 0 degrees and whose navX reads a given heading.\<close>

definition swerveAt :: "constants \<Rightarrow> real \<Rightarrow> Swerve" where
  "swerveAt c heading =
     \<lparr>leftFront = moduleAt c 0, leftRear = moduleAt c 0,
      rightFront = moduleAt c 0, rightRear = moduleAt c 0,
      chassisSpeed = \<lparr>vx = 0, vy = 0, omega = 0\<rparr>, targetRad = 0, navXAngle = heading\<rparr>"

text \<open>
  A stand-in estimator whose state is the pose itself: an update sets the heading, a
  vision measurement replaces the pose. A vision source that reports a given number of
  tags, and a drivetrain at rest.
\<close>

definition exampleEstimator :: "Pose2d PoseEstimator" where
  "exampleEstimator =
     \<lparr>update = (\<lambda>e yaw positions. e\<lparr>pose_rotation := yaw\<rparr>),
      setVisionMeasurementStdDevs = (\<lambda>e devs. e),
      addVisionMeasurement = (\<lambda>e p t. p),
      getEstimatedPosition = (\<lambda>e. e),
      resetPosition = (\<lambda>e yaw positions p. p)\<rparr>"

definition exampleLimelight :: "int \<Rightarrow> real \<Rightarrow> PoseEstimate" where
  "exampleLimelight n orientation =
     \<lparr>pose = \<lparr>pose_x = 5, pose_y = 5, pose_rotation = orientation\<rparr>,
      timestamp_seconds = 1, tag_count = n\<rparr>"

definition exampleDrivetrainConstants :: DrivetrainConstants where
  "exampleDrivetrainConstants =
     \<lparr>moduleLocations = kinematics, k_max_attainable_speed = 4,
      k_standard_deviations = (7 / 10, 7 / 10, 9999999)\<rparr>"

definition moduleMeasuring :: "real \<Rightarrow> real \<Rightarrow> Module" where
  "moduleMeasuring v a =
     \<lparr>measuredState = \<lparr>speed = v, angle = a\<rparr>,
      measuredPosition = \<lparr>distance = 0, direction = a\<rparr>,
      requestedState = None\<rparr>"

definition drivetrainAt :: "real \<Rightarrow> real \<Rightarrow> Pose2d Drivetrain" where
  "drivetrainAt heading rate =
     \<lparr>left_front = moduleMeasuring 0 0, left_rear = moduleMeasuring 0 0,
      right_front = moduleMeasuring 0 0, right_rear = moduleMeasuring 0 0,
      odometry = \<lparr>pose_x = 1, pose_y = 2, pose_rotation = 0\<rparr>,
      gyro_sim = 0, navxRotation = heading, navxRate = rate,
      fieldRobotPose = \<lparr>pose_x = 0, pose_y = 0, pose_rotation = 0\<rparr>,
      limelightOrientation = 0\<rparr>"

text \<open>
  The drivetrain of swerve.py in simulation, at rest, with a given \<open>targetRad\<close>.
\<close>

definition simulatedSwerve :: "constants \<Rightarrow> real \<Rightarrow> Swerve" where
  "simulatedSwerve c rad = (swerveAt c 0)\<lparr>targetRad := rad\<rparr>"

text \<open>
  The desaturation scenario of the spec: speeds 10, 15, 8, 12 and a maximum speed of 10,
  as the constant of either drivetrain.
\<close>

definition scenarioStates :: "SwerveModuleState quad" where
  "scenarioStates = atSpeeds (10, 15, 8, 12)"

definition scenarioConstants :: constants where
  "scenarioConstants = exampleConstants\<lparr>kMaxSpeed := 10\<rparr>"

definition scenarioDrivetrainConstants :: DrivetrainConstants where
  "scenarioDrivetrainConstants = exampleDrivetrainConstants\<lparr>k_max_attainable_speed := 10\<rparr>"

section \<open>Properties\<close>

subsection \<open>Wrapping an angle into \<open>(-180, 180]\<close>\<close>

lemma wrap180_bounds: "- 180 < wrap180 x \<and> wrap180 x \<le> 180"
proof -
  define n where "n = \<lceil>(x - 180) / 360\<rceil>"
  have "of_int n - 1 < (x - 180) / 360" "(x - 180) / 360 \<le> of_int n"
    unfolding n_def by linarith+
  then have "360 * of_int n - 360 < x - 180" "x - 180 \<le> 360 * of_int n"
    by (simp_all add: field_simps)
  then show ?thesis unfolding wrap180_def n_def [symmetric] by linarith
qed

lemma wrap180_unique:
  assumes "- 180 < y" "y \<le> 180" "y = x + 360 * of_int k"
  shows "wrap180 x = y"
proof -
  have eq: "(x - 180) / 360 = (y - 180) / 360 - of_int k"
    using assms(3) by (simp add: field_simps)
  have "- 1 < (y - 180) / 360" "(y - 180) / 360 \<le> 0"
    using assms(1,2) by simp_all
  then have "\<lceil>(y - 180) / 360\<rceil> = 0"
    by (simp add: ceiling_eq_iff)
  then have "\<lceil>(y - 180) / 360 - of_int k\<rceil> = - k"
    by simp
  with eq have "\<lceil>(x - 180) / 360\<rceil> = - k" by (simp only:)
  then show ?thesis using assms(3) by (simp add: wrap180_def)
qed

lemma wrap180_congruent: "wrap180 x = x + 360 * of_int (- \<lceil>(x - 180) / 360\<rceil>)"
  by (simp add: wrap180_def)

lemma wrap180_shift: "wrap180 (x + 360 * of_int k) = wrap180 x"
proof (rule wrap180_unique [where k = "- \<lceil>(x - 180) / 360\<rceil> - k"])
  show "wrap180 x = x + 360 * of_int k + 360 * of_int (- \<lceil>(x - 180) / 360\<rceil> - k)"
    by (simp add: wrap180_def)
qed (simp_all add: wrap180_bounds)

lemma subtract360_wrap: "- 180 < d \<Longrightarrow> subtract360 d = wrap180 d"
proof (induction d rule: subtract360.induct)
  case (1 d)
  show ?case
  proof (cases "d > 180")
    case True
    then have "subtract360 d = subtract360 (d - 360)" by (subst subtract360.simps) simp
    also have "\<dots> = wrap180 (d - 360)" using 1 True by simp
    also have "\<dots> = wrap180 d"
      using wrap180_shift [of d "-1"] by simp
    finally show ?thesis .
  next
    case False
    then have "subtract360 d = d" by (subst subtract360.simps) simp
    moreover have "wrap180 d = d" using False 1(2) by (intro wrap180_unique [where k = 0]) simp_all
    ultimately show ?thesis by simp
  qed
qed


lemma wrap180_neg_abs: "\<bar>wrap180 (- x)\<bar> = \<bar>wrap180 x\<bar>"
proof (cases "wrap180 x = 180")
  case True
  have "wrap180 (- x) = 180"
  proof (rule wrap180_unique [where k = "1 + \<lceil>(x - 180) / 360\<rceil>"])
    show "180 = - x + 360 * of_int (1 + \<lceil>(x - 180) / 360\<rceil>)"
      using True by (simp add: wrap180_def)
  qed simp_all
  with True show ?thesis by simp
next
  case False
  have "wrap180 (- x) = - wrap180 x"
  proof (rule wrap180_unique [where k = "\<lceil>(x - 180) / 360\<rceil>"])
    show "- wrap180 x = - x + 360 * of_int \<lceil>(x - 180) / 360\<rceil>"
      by (simp add: wrap180_def)
  qed (use False wrap180_bounds [of x] in simp_all)
  then show ?thesis by simp
qed

lemma targetAngleDist_wrap: "targetAngleDist a = \<bar>wrap180 a\<bar>"
proof -
  have "targetAngleDist a = \<bar>wrap180 \<bar>a\<bar>\<bar>"
  proof (cases "\<bar>a\<bar> > 180")
    case True
    then show ?thesis by (simp add: targetAngleDist_def subtract360_wrap)
  next
    case False
    then have "wrap180 \<bar>a\<bar> = \<bar>a\<bar>"
      by (intro wrap180_unique [where k = 0]) simp_all
    with False show ?thesis by (simp add: targetAngleDist_def)
  qed
  also have "\<dots> = \<bar>wrap180 a\<bar>"
    by (cases "a < 0") (simp_all add: abs_if wrap180_neg_abs [of a, simplified abs_if])
  finally show ?thesis .
qed

lemma fmod360_bounds: "0 \<le> fmod360 x \<and> fmod360 x < 360"
proof -
  define n where "n = \<lfloor>x / 360\<rfloor>"
  have "of_int n \<le> x / 360" "x / 360 < of_int n + 1"
    unfolding n_def by linarith+
  then have "360 * of_int n \<le> x" "x < 360 * of_int n + 360"
    by (simp_all add: field_simps)
  then show ?thesis unfolding fmod360_def n_def [symmetric] by linarith
qed

lemma wrappedAngleDiff_fmod: "wrappedAngleDiff a = fmod360 a"
proof (cases "a < 0 \<or> a \<ge> 360")
  case True
  then show ?thesis by (simp add: wrappedAngleDiff_def)
next
  case False
  then have "\<lfloor>a / 360\<rfloor> = 0" by (simp add: floor_eq_iff)
  with False show ?thesis by (simp add: wrappedAngleDiff_def fmod360_def)
qed

lemma fmod360_gt_iff: "fmod360 a > 180 \<longleftrightarrow> wrap180 a < 0"
proof -
  let ?f = "fmod360 a"
  have fb: "0 \<le> ?f" "?f < 360" using fmod360_bounds [of a] by simp_all
  show ?thesis
  proof (cases "?f > 180")
    case True
    have "wrap180 a = ?f - 360"
    proof (rule wrap180_unique [where k = "- \<lfloor>a / 360\<rfloor> - 1"])
      show "?f - 360 = a + 360 * of_int (- \<lfloor>a / 360\<rfloor> - 1)"
        by (simp add: fmod360_def)
    qed (use True fb in simp_all)
    with fb True show ?thesis by simp
  next
    case False
    have "wrap180 a = ?f"
    proof (rule wrap180_unique [where k = "- \<lfloor>a / 360\<rfloor>"])
      show "?f = a + 360 * of_int (- \<lfloor>a / 360\<rfloor>)"
        by (simp add: fmod360_def)
    qed (use False fb in simp_all)
    with fb False show ?thesis by simp
  qed
qed

lemma steering_is_wrap180:
  "(if wrappedAngleDiff a > 180 then - targetAngleDist a else targetAngleDist a) = wrap180 a"
  by (simp add: wrappedAngleDiff_fmod fmod360_gt_iff targetAngleDist_wrap)

lemma wrap180_shortest: "\<bar>wrap180 a\<bar> \<le> \<bar>a + 360 * of_int k\<bar>"
proof -
  define j where "j = k + \<lceil>(a - 180) / 360\<rceil>"
  have eq: "a + 360 * of_int k = wrap180 a + 360 * of_int j"
    by (simp add: wrap180_def j_def)
  have b: "- 180 < wrap180 a" "wrap180 a \<le> 180" using wrap180_bounds [of a] by simp_all
  show ?thesis
  proof (cases "j = 0")
    case True
    with eq show ?thesis by simp
  next
    case False
    then consider "j \<ge> 1" | "j \<le> - 1" by linarith
    then show ?thesis
    proof cases
      case 1
      then have "(1::real) \<le> of_int j" by simp
      with b eq show ?thesis by linarith
    next
      case 2
      then have "of_int j \<le> (- 1::real)" by linarith
      with b eq show ?thesis by linarith
    qed
  qed
qed

subsection \<open>What changeDirection demands\<close>

lemma wrap180_antipode: "\<bar>wrap180 (x + 180)\<bar> = 180 - \<bar>wrap180 x\<bar>"
proof -
  have b: "- 180 < wrap180 x" "wrap180 x \<le> 180" using wrap180_bounds [of x] by simp_all
  show ?thesis
  proof (cases "wrap180 x \<le> 0")
    case True
    have "wrap180 (x + 180) = wrap180 x + 180"
    proof (rule wrap180_unique [where k = "- \<lceil>(x - 180) / 360\<rceil>"])
      show "wrap180 x + 180 = x + 180 + 360 * of_int (- \<lceil>(x - 180) / 360\<rceil>)"
        by (simp add: wrap180_def)
    qed (use True b in simp_all)
    with True b show ?thesis by simp
  next
    case False
    have "wrap180 (x + 180) = wrap180 x - 180"
    proof (rule wrap180_unique [where k = "- \<lceil>(x - 180) / 360\<rceil> - 1"])
      show "wrap180 x - 180 = x + 180 + 360 * of_int (- \<lceil>(x - 180) / 360\<rceil> - 1)"
        by (simp add: wrap180_def)
    qed (use False b in simp_all)
    with False b show ?thesis by simp
  qed
qed

lemma wrap180_idem_diff: "wrap180 (wrap180 x - y) = wrap180 (x - y)"
proof -
  have "wrap180 x - y = (x - y) + 360 * of_int (- \<lceil>(x - 180) / 360\<rceil>)"
    by (simp add: wrap180_def)
  then show ?thesis by (simp only: wrap180_shift)
qed

lemma changeDirection_rotation:
  assumes "kGearRatio c \<noteq> 0"
  shows "\<exists>m'. changeDirection c m rotation = Inr m' \<and>
           driveOutput m' = driveOutput m \<and> driveFeedForward m' = driveFeedForward m \<and>
           commandedRotation c m m' =
             wrap180 (rotation - directionSensorPosition m / kGearRatio c * (360 / 2048))"
proof -
  let ?cur = "directionSensorPosition m / kGearRatio c * (360 / 2048)"
  let ?a = "rotation - ?cur"
  let ?fp = "directionSensorPosition m / kGearRatio c"
  let ?fp' = "if wrappedAngleDiff ?a > 180 then ?fp - targetAngleDist ?a / (360 / 2048)
              else ?fp + targetAngleDist ?a / (360 / 2048)"
  let ?m' = "m\<lparr>directionTarget := ?fp' * kGearRatio c,
                simRawPosition := py_int (?fp' * kGearRatio c)\<rparr>"
  have run: "changeDirection c m rotation = Inr ?m'"
    using assms by (simp add: changeDirection_def getAngle_def Let_def)
  have "commandedRotation c m ?m' = ?fp' * (360 / 2048) - ?cur"
    using assms by (simp add: commandedRotation_def)
  also have "\<dots> = (if wrappedAngleDiff ?a > 180 then - targetAngleDist ?a else targetAngleDist ?a)"
    by (simp add: diff_divide_distrib add_divide_distrib)
  also have "\<dots> = wrap180 ?a" by (rule steering_is_wrap180)
  finally have "commandedRotation c m ?m' = wrap180 ?a" .
  with run show ?thesis by simp
qed


lemma setDesiredState_run:
  assumes "kGearRatio c \<noteq> 0" "kMaxSpeed c \<noteq> 0"
  shows "setDesiredState c m ds opt =
           (let cur = directionSensorPosition m / kGearRatio c * (360 / 2048);
                ds' = (if opt then optimize ds cur else ds)
            in changeDirection c
                 (m\<lparr>driveOutput := speed ds' / kMaxSpeed c,
                    driveFeedForward := (if speed ds' < 0 then - arbFF m else arbFF m)\<rparr>)
                 (angle ds'))"
  using assms by (simp add: setDesiredState_def getState_def Let_def)


lemma getAngle_moduleAt: "kGearRatio c \<noteq> 0 \<Longrightarrow> getAngle c (moduleAt c d) = Inr d"
  by (simp add: getAngle_def moduleAt_def)

lemma example_gear: "kGearRatio exampleConstants \<noteq> 0"
  by (simp add: exampleConstants_def)

lemma example_max: "kMaxSpeed exampleConstants \<noteq> 0"
  by (simp add: exampleConstants_def)



text \<open>
  Claim C5. For every target rotation and every sensor position (the angle is not
  wrapped), \<^verbatim>\<open>changeDirection\<close> demands the minimal arc: the demanded rotation lies
  in \<open>(-180, 180]\<close>, reaches the target up to whole turns, and no rotation that reaches
  the target up to whole turns is shorter. The gear ratio is a missing constant; with a
  zero ratio the call raises.
\<close>

theorem changeDirection_minimal_arc:
  assumes "kGearRatio c \<noteq> 0"
  shows "\<exists>m' current. changeDirection c m rotation = Inr m' \<and> getAngle c m = Inr current \<and>
           - 180 < commandedRotation c m m' \<and> commandedRotation c m m' \<le> 180 \<and>
           (\<exists>k::int. commandedRotation c m m' = rotation - current + 360 * of_int k) \<and>
           (\<forall>k::int. \<bar>commandedRotation c m m'\<bar> \<le> \<bar>rotation - current + 360 * of_int k\<bar>)"
proof -
  let ?cur = "directionSensorPosition m / kGearRatio c * (360 / 2048)"
  from changeDirection_rotation [OF assms, of m rotation]
  obtain m' where run: "changeDirection c m rotation = Inr m'"
    and rot: "commandedRotation c m m' = wrap180 (rotation - ?cur)" by blast
  have cur: "getAngle c m = Inr ?cur" using assms by (simp add: getAngle_def)
  have "\<exists>k::int. wrap180 (rotation - ?cur) = rotation - ?cur + 360 * of_int k"
    using wrap180_congruent by blast
  with run cur rot show ?thesis
    using wrap180_bounds [of "rotation - ?cur"] wrap180_shortest [of "rotation - ?cur"]
    by (intro exI [of _ m'] exI [of _ ?cur]) simp
qed


theorem changeDirection_minimal_arc_witness:
  "kGearRatio exampleConstants \<noteq> 0 \<and>
   (\<exists>m' current.
      changeDirection exampleConstants (moduleAt exampleConstants 170) (- 170) = Inr m' \<and>
      getAngle exampleConstants (moduleAt exampleConstants 170) = Inr current \<and>
      - 180 < commandedRotation exampleConstants (moduleAt exampleConstants 170) m' \<and>
      commandedRotation exampleConstants (moduleAt exampleConstants 170) m' \<le> 180 \<and>
      (\<exists>k::int. commandedRotation exampleConstants (moduleAt exampleConstants 170) m'
                  = - 170 - current + 360 * of_int k) \<and>
      (\<forall>k::int. \<bar>commandedRotation exampleConstants (moduleAt exampleConstants 170) m'\<bar>
                  \<le> \<bar>- 170 - current + 360 * of_int k\<bar>))"
  using changeDirection_minimal_arc [OF example_gear, of "moduleAt exampleConstants 170" "- 170"]
    example_gear by simp


text \<open>
  Claim C8. When the target is exactly half a turn away from the current angle (in either
  direction, up to whole turns), \<^verbatim>\<open>changeDirection\<close> always takes the branch that
  adds to the sensor position: the demand is the current position plus 1024 sensor units
  at the wheel, a rotation of +180 degrees.
\<close>

theorem changeDirection_half_turn:
  assumes "kGearRatio c \<noteq> 0"
    and "getAngle c m = Inr current"
    and "rotation - current = 180 + 360 * of_int k"
  shows "\<exists>m'. changeDirection c m rotation = Inr m' \<and> commandedRotation c m m' = 180 \<and>
           directionTarget m' = (directionSensorPosition m / kGearRatio c + 1024) * kGearRatio c"
proof -
  let ?cur = "directionSensorPosition m / kGearRatio c * (360 / 2048)"
  have cur: "current = ?cur" using assms(1,2) by (simp add: getAngle_def)
  from changeDirection_rotation [OF assms(1), of m rotation]
  obtain m' where run: "changeDirection c m rotation = Inr m'"
    and rot: "commandedRotation c m m' = wrap180 (rotation - ?cur)" by blast
  have "wrap180 (rotation - ?cur) = 180"
    using assms(3) cur by (intro wrap180_unique [where k = "- k"]) simp_all
  with rot have r: "commandedRotation c m m' = 180" by simp
  then have "directionTarget m' / kGearRatio c = directionSensorPosition m / kGearRatio c + 1024"
    by (simp add: commandedRotation_def)
  then have "directionTarget m' = (directionSensorPosition m / kGearRatio c + 1024) * kGearRatio c"
    using assms(1) by (simp add: field_simps)
  with run r show ?thesis by simp
qed

theorem changeDirection_half_turn_witness:
  "kGearRatio exampleConstants \<noteq> 0 \<and>
   getAngle exampleConstants (moduleAt exampleConstants 0) = Inr 0 \<and>
   (- 180 - 0 :: real) = 180 + 360 * of_int (- 1) \<and>
   (\<exists>m'. changeDirection exampleConstants (moduleAt exampleConstants 0) (- 180) = Inr m' \<and>
         commandedRotation exampleConstants (moduleAt exampleConstants 0) m' = 180 \<and>
         directionTarget m' =
           (directionSensorPosition (moduleAt exampleConstants 0) / kGearRatio exampleConstants + 1024)
             * kGearRatio exampleConstants)"
proof -
  have a: "getAngle exampleConstants (moduleAt exampleConstants 0) = Inr 0"
    by (rule getAngle_moduleAt [OF example_gear])
  have d: "(- 180 - 0 :: real) = 180 + 360 * of_int (- 1)" by simp
  show ?thesis
    using changeDirection_half_turn [OF example_gear a d] example_gear a d by blast
qed


text \<open>
  Claim C1. With \<open>optimize = True\<close>, \<^verbatim>\<open>setDesiredState\<close> demands a steering
  rotation of at most 90 degrees. The rotation is the shortest one to the target or to its
  antipode, whichever is nearer, and the drive output is negated exactly when the antipode
  is the one steered to.
\<close>

theorem setDesiredState_optimize_quarter_turn:
  assumes "kGearRatio c \<noteq> 0" and "kMaxSpeed c \<noteq> 0"
    and "getAngle c m = Inr current"
  shows "\<exists>m'. setDesiredState c m desiredState True = Inr m' \<and>
           \<bar>commandedRotation c m m'\<bar> \<le> 90 \<and>
           (\<forall>k::int. \<bar>commandedRotation c m m'\<bar> \<le> \<bar>angle desiredState - current + 360 * of_int k\<bar> \<and>
                     \<bar>commandedRotation c m m'\<bar> \<le> \<bar>angle desiredState + 180 - current + 360 * of_int k\<bar>) \<and>
           ((driveOutput m' = speed desiredState / kMaxSpeed c \<and>
               (\<exists>k::int. commandedRotation c m m' = angle desiredState - current + 360 * of_int k)) \<or>
            (driveOutput m' = - speed desiredState / kMaxSpeed c \<and>
               (\<exists>k::int. commandedRotation c m m' = angle desiredState + 180 - current + 360 * of_int k)))"
proof -
  let ?cur = "directionSensorPosition m / kGearRatio c * (360 / 2048)"
  have cur: "current = ?cur" using assms(1,3) by (simp add: getAngle_def)
  let ?a = "angle desiredState"
  let ?delta = "wrap180 (?a - current)"
  let ?ds' = "optimize desiredState current"
  let ?m1 = "m\<lparr>driveOutput := speed ?ds' / kMaxSpeed c,
                driveFeedForward := (if speed ?ds' < 0 then - arbFF m else arbFF m)\<rparr>"
  have run: "setDesiredState c m desiredState True = changeDirection c ?m1 (angle ?ds')"
    using setDesiredState_run [OF assms(1,2), of m desiredState True] cur by (simp add: Let_def)
  from changeDirection_rotation [OF assms(1), of ?m1 "angle ?ds'"]
  obtain m' where cd: "changeDirection c ?m1 (angle ?ds') = Inr m'"
    and out: "driveOutput m' = speed ?ds' / kMaxSpeed c"
    and rot0: "commandedRotation c ?m1 m' = wrap180 (angle ?ds' - current)"
    using cur by auto
  have rot: "commandedRotation c m m' = wrap180 (angle ?ds' - current)"
    using rot0 by (simp add: commandedRotation_def)
  have anti: "\<bar>wrap180 (?a + 180 - current)\<bar> = 180 - \<bar>?delta\<bar>"
    using wrap180_antipode [of "?a - current"] by (simp add: algebra_simps)
  have db: "\<bar>?delta\<bar> \<le> 180" using wrap180_bounds [of "?a - current"] by linarith
  have short1: "\<bar>?delta\<bar> \<le> \<bar>?a - current + 360 * of_int k\<bar>" for k :: int
    by (rule wrap180_shortest)
  have short2: "\<bar>wrap180 (?a + 180 - current)\<bar> \<le> \<bar>?a + 180 - current + 360 * of_int k\<bar>" for k :: int
    by (rule wrap180_shortest)
  show ?thesis
  proof (cases "\<bar>?delta\<bar> > 90")
    case True
    then have ds': "?ds' = \<lparr>speed = - speed desiredState, angle = wrap180 (?a + 180)\<rparr>"
      by (simp add: optimize_def Let_def)
    have r: "commandedRotation c m m' = wrap180 (?a + 180 - current)"
      using rot ds' by (simp add: wrap180_idem_diff)
    have "\<exists>k::int. commandedRotation c m m' = ?a + 180 - current + 360 * of_int k"
      unfolding r using wrap180_congruent by blast
    moreover have "driveOutput m' = - speed desiredState / kMaxSpeed c"
      using out ds' by simp
    moreover have "\<bar>commandedRotation c m m'\<bar> \<le> 90"
      using r anti True by simp
    moreover have "\<forall>k::int. \<bar>commandedRotation c m m'\<bar> \<le> \<bar>?a - current + 360 * of_int k\<bar> \<and>
                     \<bar>commandedRotation c m m'\<bar> \<le> \<bar>?a + 180 - current + 360 * of_int k\<bar>"
    proof
      fix k :: int
      have "\<bar>commandedRotation c m m'\<bar> \<le> \<bar>?delta\<bar>" using r anti True by simp
      with short1 [of k] short2 [of k] r
      show "\<bar>commandedRotation c m m'\<bar> \<le> \<bar>?a - current + 360 * of_int k\<bar> \<and>
            \<bar>commandedRotation c m m'\<bar> \<le> \<bar>?a + 180 - current + 360 * of_int k\<bar>"
        by simp
    qed
    ultimately show ?thesis using run cd by simp
  next
    case False
    then have ds': "?ds' = desiredState" by (simp add: optimize_def Let_def)
    have r: "commandedRotation c m m' = ?delta" using rot ds' by simp
    have "\<exists>k::int. commandedRotation c m m' = ?a - current + 360 * of_int k"
      unfolding r using wrap180_congruent by blast
    moreover have "driveOutput m' = speed desiredState / kMaxSpeed c"
      using out ds' by simp
    moreover have "\<bar>commandedRotation c m m'\<bar> \<le> 90" using r False by simp
    moreover have "\<forall>k::int. \<bar>commandedRotation c m m'\<bar> \<le> \<bar>?a - current + 360 * of_int k\<bar> \<and>
                     \<bar>commandedRotation c m m'\<bar> \<le> \<bar>?a + 180 - current + 360 * of_int k\<bar>"
    proof
      fix k :: int
      have "\<bar>?delta\<bar> \<le> \<bar>wrap180 (?a + 180 - current)\<bar>" using anti False by simp
      with short1 [of k] short2 [of k] r
      show "\<bar>commandedRotation c m m'\<bar> \<le> \<bar>?a - current + 360 * of_int k\<bar> \<and>
            \<bar>commandedRotation c m m'\<bar> \<le> \<bar>?a + 180 - current + 360 * of_int k\<bar>"
        by simp
    qed
    ultimately show ?thesis using run cd by simp
  qed
qed


text \<open>The scenario of the spec: module at 170 degrees, target -170 degrees.\<close>

lemma scenario_170:
  "\<exists>m'. setDesiredState exampleConstants (moduleAt exampleConstants 170)
           \<lparr>speed = 1, angle = - 170\<rparr> True = Inr m' \<and>
         commandedRotation exampleConstants (moduleAt exampleConstants 170) m' = 20 \<and>
         driveOutput m' = 1 / 4"
  apply (simp add: setDesiredState_def getState_def changeDirection_def getAngle_def Let_def
    exampleConstants_def moduleAt_def optimize_def wrap180_def targetAngleDist_def
    wrappedAngleDiff_def fmod360_def commandedRotation_def subtract360.simps)
  done

theorem setDesiredState_optimize_quarter_turn_witness:
  "kGearRatio exampleConstants \<noteq> 0 \<and> kMaxSpeed exampleConstants \<noteq> 0 \<and>
   getAngle exampleConstants (moduleAt exampleConstants 170) = Inr 170 \<and>
   (\<exists>m'. setDesiredState exampleConstants (moduleAt exampleConstants 170)
           \<lparr>speed = 1, angle = - 170\<rparr> True = Inr m' \<and>
         \<bar>commandedRotation exampleConstants (moduleAt exampleConstants 170) m'\<bar> \<le> 90)"
proof -
  have a: "getAngle exampleConstants (moduleAt exampleConstants 170) = Inr 170"
    by (rule getAngle_moduleAt [OF example_gear])
  show ?thesis
    using setDesiredState_optimize_quarter_turn [OF example_gear example_max a,
        of "\<lparr>speed = 1, angle = - 170\<rparr>"]
      example_gear example_max a
    by blast
qed

text \<open>
  Claim C10. A desired speed of exactly 0 is not negative, so the drive motor gets percent
  output 0 together with the feed-forward \<open>+arbFF\<close>, with or without optimisation.
\<close>

theorem setDesiredState_stop_feedforward:
  assumes "kGearRatio c \<noteq> 0" and "kMaxSpeed c \<noteq> 0" and "speed desiredState = 0"
  shows "\<exists>m'. setDesiredState c m desiredState opt = Inr m' \<and>
           driveOutput m' = 0 \<and> driveFeedForward m' = arbFF m"
proof -
  let ?cur = "directionSensorPosition m / kGearRatio c * (360 / 2048)"
  let ?ds' = "if opt then optimize desiredState ?cur else desiredState"
  have sp: "speed ?ds' = 0" using assms(3) by (simp add: optimize_def Let_def)
  let ?m1 = "m\<lparr>driveOutput := speed ?ds' / kMaxSpeed c,
                driveFeedForward := (if speed ?ds' < 0 then - arbFF m else arbFF m)\<rparr>"
  have run: "setDesiredState c m desiredState opt = changeDirection c ?m1 (angle ?ds')"
    using setDesiredState_run [OF assms(1,2), of m desiredState opt] by (simp add: Let_def)
  from changeDirection_rotation [OF assms(1), of ?m1 "angle ?ds'"]
  obtain m' where cd: "changeDirection c ?m1 (angle ?ds') = Inr m'"
    and out: "driveOutput m' = driveOutput ?m1"
    and ff: "driveFeedForward m' = driveFeedForward ?m1"
    by blast
  from out ff sp have "driveOutput m' = 0" "driveFeedForward m' = arbFF m" by simp_all
  with run cd show ?thesis by simp
qed

theorem setDesiredState_stop_feedforward_witness:
  "kGearRatio exampleConstants \<noteq> 0 \<and> kMaxSpeed exampleConstants \<noteq> 0 \<and>
   speed \<lparr>speed = 0, angle = 45\<rparr> = 0 \<and>
   (\<exists>m'. setDesiredState exampleConstants (moduleAt exampleConstants 0)
           \<lparr>speed = 0, angle = 45\<rparr> True = Inr m' \<and>
         driveOutput m' = 0 \<and> driveFeedForward m' = 1 / 20)"
proof -
  have s: "speed \<lparr>speed = 0, angle = 45\<rparr> = 0" by simp
  have f: "arbFF (moduleAt exampleConstants 0) = 1 / 20"
    by (simp add: moduleAt_def exampleConstants_def)
  show ?thesis
    using setDesiredState_stop_feedforward [OF example_gear example_max s,
        of "moduleAt exampleConstants 0" True]
      example_gear example_max f
    by simp
qed

subsection \<open>Desaturation\<close>

lemma realMaxSpeed_nonneg: "0 \<le> realMaxSpeed states"
  by (cases states) (simp add: realMaxSpeed_def max_def)

lemma realMaxSpeed_ge:
  "all4 (\<lambda>s. \<bar>speed s\<bar> \<le> realMaxSpeed states) states"
  by (cases states) (simp add: realMaxSpeed_def le_max_iff_disj)

lemma realMaxSpeed_scale:
  assumes "0 \<le> k"
  shows "realMaxSpeed (map4 (\<lambda>s. s\<lparr>speed := k * speed s\<rparr>) states) = k * realMaxSpeed states"
proof -
  have m: "max (k * a) (k * b) = k * max a b" for a b :: real
    using assms by (simp add: max_mult_distrib_left)
  obtain a b c d where s: "states = (a, b, c, d)" by (cases states) auto
  show ?thesis using assms by (simp add: s realMaxSpeed_def abs_mult m)
qed

lemma desaturate_as_scaling:
  "desaturateWheelSpeeds states m =
     (if realMaxSpeed states > m
      then map4 (\<lambda>s. s\<lparr>speed := (m / realMaxSpeed states) * speed s\<rparr>) states
      else states)"
  by (cases states) (simp add: desaturateWheelSpeeds_def Let_def)

lemma map4_scale_one: "map4 (\<lambda>s::SwerveModuleState. s\<lparr>speed := 1 * speed s\<rparr>) states = states"
  by (cases states) simp

lemma desaturate_factor:
  assumes "0 \<le> m"
  shows "\<exists>k. 0 \<le> k \<and> k \<le> 1 \<and>
           desaturateWheelSpeeds states m = map4 (\<lambda>s. s\<lparr>speed := k * speed s\<rparr>) states \<and>
           k * realMaxSpeed states \<le> m"
proof (cases "realMaxSpeed states > m")
  case True
  let ?k = "m / realMaxSpeed states"
  from True assms have pos: "0 < realMaxSpeed states" by linarith
  have "0 \<le> ?k" "?k \<le> 1" using assms True pos by simp_all
  moreover have "desaturateWheelSpeeds states m = map4 (\<lambda>s. s\<lparr>speed := ?k * speed s\<rparr>) states"
    using True by (simp add: desaturate_as_scaling)
  moreover have "?k * realMaxSpeed states \<le> m" using pos by simp
  ultimately show ?thesis by blast
next
  case False
  have "desaturateWheelSpeeds states m = map4 (\<lambda>s. s\<lparr>speed := 1 * speed s\<rparr>) states"
    using False by (simp only: desaturate_as_scaling map4_scale_one if_False)
  with False show ?thesis by (intro exI [of _ 1]) simp
qed

lemma scaled_not_larger:
  assumes "0 \<le> k" "k \<le> 1"
  shows "all4 (\<lambda>p. \<bar>speed (snd p)\<bar> \<le> \<bar>speed (fst p)\<bar> \<and> angle (snd p) = angle (fst p))
           (zip4 states (map4 (\<lambda>s. s\<lparr>speed := k * speed s\<rparr>) states))"
proof -
  have "\<bar>k * x\<bar> \<le> \<bar>x\<bar>" for x :: real
    using assms by (simp add: abs_mult mult_left_le_one_le)
  then show ?thesis by (cases states) simp
qed

lemma desaturate_idem:
  assumes "0 \<le> m"
  shows "desaturateWheelSpeeds (desaturateWheelSpeeds states m) m = desaturateWheelSpeeds states m"
proof -
  from desaturate_factor [OF assms, of states] obtain k where k: "0 \<le> k"
    and eq: "desaturateWheelSpeeds states m = map4 (\<lambda>s. s\<lparr>speed := k * speed s\<rparr>) states"
    and le: "k * realMaxSpeed states \<le> m" by blast
  have "realMaxSpeed (desaturateWheelSpeeds states m) \<le> m"
    unfolding eq using realMaxSpeed_scale [OF k, of states] le by simp
  then show ?thesis
    by (simp add: desaturate_as_scaling [of "desaturateWheelSpeeds states m"])
qed

lemma setDesiredState_total:
  assumes "kGearRatio c \<noteq> 0" "kMaxSpeed c \<noteq> 0"
  shows "\<exists>m'. setDesiredState c m ds opt = Inr m'"
  using assms
  by (simp add: setDesiredState_def getState_def changeDirection_def getAngle_def Let_def)

lemma setModuleStates_total:
  assumes "kGearRatio c \<noteq> 0" "kMaxSpeed c \<noteq> 0"
  shows "\<exists>sw'. setModuleStates c sw states opt = Inr sw'"
proof -
  obtain s0 s1 s2 s3 where d: "desaturateWheelSpeeds states (kMaxSpeed c) = (s0, s1, s2, s3)"
    by (cases "desaturateWheelSpeeds states (kMaxSpeed c)") auto
  from setDesiredState_total [OF assms] obtain lf lr rf rr where
    "setDesiredState c (leftFront sw) s0 opt = Inr lf"
    "setDesiredState c (leftRear sw) s1 opt = Inr lr"
    "setDesiredState c (rightFront sw) s2 opt = Inr rf"
    "setDesiredState c (rightRear sw) s3 opt = Inr rr"
    by metis
  then show ?thesis by (simp add: setModuleStates_def d)
qed

text \<open>
  Claim C9. For a maximum speed \<open>m > 0\<close> desaturating twice is desaturating once; so the
  desaturation inside \<^verbatim>\<open>setModuleStates\<close> leaves the states that \<^verbatim>\<open>drive\<close>
  has already desaturated with the same maximum unchanged.
\<close>

theorem desaturate_idempotent:
  assumes "0 < m"
  shows "desaturateWheelSpeeds (desaturateWheelSpeeds states m) m = desaturateWheelSpeeds states m \<and>
         (kMaxSpeed c = m \<longrightarrow>
            desaturateWheelSpeeds (desatStates c isReal sw v fieldRelative) (kMaxSpeed c)
              = desatStates c isReal sw v fieldRelative)"
proof -
  from assms have m: "0 \<le> m" by simp
  have "desaturateWheelSpeeds (desatStates c isReal sw v fieldRelative) (kMaxSpeed c)
          = desatStates c isReal sw v fieldRelative" if "kMaxSpeed c = m"
    using that m by (simp add: desatStates_def Let_def desaturate_idem)
  with desaturate_idem [OF m] show ?thesis by blast
qed

theorem desaturate_idempotent_witness:
  "(0::real) < 4 \<and>
   desaturateWheelSpeeds (desaturateWheelSpeeds (atSpeeds (10, 15, 8, 12)) 4) 4
     = desaturateWheelSpeeds (atSpeeds (10, 15, 8, 12)) 4 \<and>
   kMaxSpeed exampleConstants = 4 \<and>
   desaturateWheelSpeeds
       (desatStates exampleConstants True (swerveAt exampleConstants 0)
          \<lparr>vx = 30, vy = 40, omega = 0\<rparr> False) (kMaxSpeed exampleConstants)
     = desatStates exampleConstants True (swerveAt exampleConstants 0)
         \<lparr>vx = 30, vy = 40, omega = 0\<rparr> False"
proof -
  have z: "(0::real) < 4" by simp
  have k: "kMaxSpeed exampleConstants = 4" by (simp add: exampleConstants_def)
  show ?thesis
    using desaturate_idempotent [OF z, of "atSpeeds (10, 15, 8, 12)" exampleConstants True
        "swerveAt exampleConstants 0" "\<lparr>vx = 30, vy = 40, omega = 0\<rparr>" False] k
    by simp
qed

subsection \<open>Kinematics\<close>

lemma hypot_factor:
  assumes "x \<noteq> 0"
  shows "sqrt (x\<^sup>2 + y\<^sup>2) = \<bar>x\<bar> * sqrt (1 + (y / x)\<^sup>2)"
proof -
  have "x\<^sup>2 + y\<^sup>2 = x\<^sup>2 * (1 + (y / x)\<^sup>2)"
    using assms by (simp add: field_simps power2_eq_square)
  then show ?thesis by (simp add: real_sqrt_mult)
qed

lemma sqrt_one_plus_pos: "0 < sqrt (1 + t\<^sup>2)" for t :: real
  by (simp add: add_pos_nonneg)

lemma polar_cos: "sqrt (x\<^sup>2 + y\<^sup>2) * cos (atan2 y x) = x"
proof -
  let ?r = "sqrt (1 + (y / x)\<^sup>2)"
  have r: "?r \<noteq> 0" using sqrt_one_plus_pos [of "y / x"] by simp
  consider "x > 0" | "x < 0" | "x = 0" by linarith
  then show ?thesis
  proof cases
    case 1
    then have "sqrt (x\<^sup>2 + y\<^sup>2) * cos (atan2 y x) = (x * ?r) * (1 / ?r)"
      by (simp add: atan2_def hypot_factor cos_arctan)
    also have "\<dots> = x" using r by simp
    finally show ?thesis .
  next
    case 2
    then have "cos (atan2 y x) = - cos (arctan (y / x))"
      by (simp add: atan2_def)
    with 2 have "sqrt (x\<^sup>2 + y\<^sup>2) * cos (atan2 y x) = (- x * ?r) * (- (1 / ?r))"
      by (simp add: hypot_factor cos_arctan)
    also have "\<dots> = x" using r by simp
    finally show ?thesis .
  next
    case 3
    then show ?thesis by (simp add: atan2_def)
  qed
qed

lemma polar_sin: "sqrt (x\<^sup>2 + y\<^sup>2) * sin (atan2 y x) = y"
proof -
  let ?r = "sqrt (1 + (y / x)\<^sup>2)"
  have r: "?r \<noteq> 0" using sqrt_one_plus_pos [of "y / x"] by simp
  consider "x > 0" | "x < 0" | "x = 0" by linarith
  then show ?thesis
  proof cases
    case 1
    then have "sqrt (x\<^sup>2 + y\<^sup>2) * sin (atan2 y x) = (x * ?r) * ((y / x) / ?r)"
      by (simp add: atan2_def hypot_factor sin_arctan)
    also have "\<dots> = y" using r 1 by simp
    finally show ?thesis .
  next
    case 2
    then have "sin (atan2 y x) = - sin (arctan (y / x))"
      by (simp add: atan2_def)
    with 2 have "sqrt (x\<^sup>2 + y\<^sup>2) * sin (atan2 y x) = (- x * ?r) * (- ((y / x) / ?r))"
      by (simp add: hypot_factor sin_arctan)
    also have "\<dots> = y" using r 2 by simp
    finally show ?thesis .
  next
    case 3
    then show ?thesis by (simp add: atan2_def)
  qed
qed

lemma stateX_polarState: "stateX (polarState w) = fst w"
proof -
  have "rotationOf (fst w) (snd w) * pi / 180 = atan2 (snd w) (fst w)"
    by (simp add: rotationOf_def)
  then show ?thesis by (simp add: stateX_def polarState_def cosDeg_def polar_cos)
qed

lemma stateY_polarState: "stateY (polarState w) = snd w"
proof -
  have "rotationOf (fst w) (snd w) * pi / 180 = atan2 (snd w) (fst w)"
    by (simp add: rotationOf_def)
  then show ?thesis by (simp add: stateY_def polarState_def sinDeg_def polar_sin)
qed

lemma cramer_normal:
  fixes sx sy q a b w :: real
  defines "d \<equiv> det3 4 0 (- sy) 0 4 sx (- sy) sx q"
  defines "r1 \<equiv> 4 * a - sy * w"
  defines "r2 \<equiv> 4 * b + sx * w"
  defines "r3 \<equiv> - sy * a + sx * b + q * w"
  shows "det3 r1 0 (- sy) r2 4 sx r3 sx q = a * d"
    and "det3 4 r1 (- sy) 0 r2 sx (- sy) r3 q = b * d"
    and "det3 4 0 r1 0 4 r2 (- sy) sx r3 = w * d"
  unfolding d_def r1_def r2_def r3_def det3_def by (simp_all add: algebra_simps)

lemma normal_rhs:
  fixes locs :: "Translation2d quad" and v :: ChassisSpeeds
  defines "states \<equiv> toSwerveModuleStates locs v (0, 0)"
  shows "sum4 stateX states = 4 * vx v - sum4 snd locs * omega v"
    and "sum4 stateY states = 4 * vy v + sum4 fst locs * omega v"
    and "sum4 (\<lambda>(l, s). fst l * stateY s - snd l * stateX s) (zip4 locs states)
           = - sum4 snd locs * vx v + sum4 fst locs * vy v
               + sum4 (\<lambda>l. (fst l)\<^sup>2 + (snd l)\<^sup>2) locs * omega v"
  unfolding states_def
  by (cases locs; simp add: toSwerveModuleStates_def stateX_polarState stateY_polarState
        moduleVelocity_def algebra_simps power2_eq_square)+

lemma round_trip_normalDet:
  assumes "normalDet locs \<noteq> 0"
  shows "toChassisSpeeds locs (toSwerveModuleStates locs v (0, 0)) = v"
proof -
  let ?sx = "sum4 fst locs" and ?sy = "sum4 snd locs"
  let ?q = "sum4 (\<lambda>l. (fst l)\<^sup>2 + (snd l)\<^sup>2) locs"
  let ?d = "det3 4 0 (- ?sy) 0 4 ?sx (- ?sy) ?sx ?q"
  have d: "?d \<noteq> 0" using assms by (simp add: normalDet_def Let_def)
  have "toChassisSpeeds locs (toSwerveModuleStates locs v (0, 0))
          = \<lparr>vx = vx v * ?d / ?d, vy = vy v * ?d / ?d, omega = omega v * ?d / ?d\<rparr>"
    unfolding toChassisSpeeds_def Let_def normal_rhs
    by (simp only: cramer_normal)
  also have "\<dots> = v" using d by simp
  finally show ?thesis .
qed


lemma normalDet_pairs:
  "normalDet ((x1, y1), (x2, y2), (x3, y3), (x4, y4)) =
     4 * ((x1 - x2)\<^sup>2 + (y1 - y2)\<^sup>2 + (x1 - x3)\<^sup>2 + (y1 - y3)\<^sup>2 + (x1 - x4)\<^sup>2 + (y1 - y4)\<^sup>2
        + (x2 - x3)\<^sup>2 + (y2 - y3)\<^sup>2 + (x2 - x4)\<^sup>2 + (y2 - y4)\<^sup>2 + (x3 - x4)\<^sup>2 + (y3 - y4)\<^sup>2)"
  by (simp add: normalDet_def det3_def Let_def power2_eq_square algebra_simps)

lemma normalDet_nonzero:
  assumes "\<not> all4 (\<lambda>l. l = fst locs) locs"
  shows "normalDet locs \<noteq> 0"
proof -
  obtain x1 y1 x2 y2 x3 y3 x4 y4 where l: "locs = ((x1, y1), (x2, y2), (x3, y3), (x4, y4))"
    by (metis prod.exhaust)
  let ?rest = "(y1 - y2)\<^sup>2 + (x1 - x3)\<^sup>2 + (y1 - y3)\<^sup>2 + (x1 - x4)\<^sup>2 + (y1 - y4)\<^sup>2
        + (x2 - x3)\<^sup>2 + (y2 - y3)\<^sup>2 + (x2 - x4)\<^sup>2 + (y2 - y4)\<^sup>2 + (x3 - x4)\<^sup>2 + (y3 - y4)\<^sup>2"
  from assms l have ne: "x1 \<noteq> x2 \<or> y1 \<noteq> y2 \<or> x1 \<noteq> x3 \<or> y1 \<noteq> y3 \<or> x1 \<noteq> x4 \<or> y1 \<noteq> y4"
    by auto
  have sq: "0 \<le> (a - b)\<^sup>2" "a \<noteq> b \<Longrightarrow> 0 < (a - b)\<^sup>2" for a b :: real
    by simp_all
  have "0 < (x1 - x2)\<^sup>2 + (y1 - y2)\<^sup>2 + (x1 - x3)\<^sup>2 + (y1 - y3)\<^sup>2 + (x1 - x4)\<^sup>2 + (y1 - y4)\<^sup>2
        + (x2 - x3)\<^sup>2 + (y2 - y3)\<^sup>2 + (x2 - x4)\<^sup>2 + (y2 - y4)\<^sup>2 + (x3 - x4)\<^sup>2 + (y3 - y4)\<^sup>2"
    using ne sq(1) [of x1 x2] sq(1) [of y1 y2] sq(1) [of x1 x3] sq(1) [of y1 y3]
      sq(1) [of x1 x4] sq(1) [of y1 y4] sq(1) [of x2 x3] sq(1) [of y2 y3]
      sq(1) [of x2 x4] sq(1) [of y2 y4] sq(1) [of x3 x4] sq(1) [of y3 y4]
      sq(2) [of x1 x2] sq(2) [of y1 y2] sq(2) [of x1 x3] sq(2) [of y1 y3]
      sq(2) [of x1 x4] sq(2) [of y1 y4]
    by linarith
  then show ?thesis unfolding l normalDet_pairs by simp
qed


text \<open>
  Claim C2. For every placement of the four modules that does not put all four at one
  point, and so for the placement of swerve.py (line 144), forward kinematics undoes
  inverse kinematics exactly: \<open>toChassisSpeeds (toSwerveModuleStates v) = v\<close> for every
  chassis velocity \<open>v\<close>. Over the reals the identity is exact; the tolerance of the claim
  is the rounding of the floats.
\<close>

theorem kinematics_round_trip:
  assumes "\<not> all4 (\<lambda>l. l = fst locs) locs"
  shows "toChassisSpeeds locs (toSwerveModuleStates locs v (0, 0)) = v"
  using round_trip_normalDet [OF normalDet_nonzero [OF assms]] .

theorem kinematics_round_trip_witness:
  "\<not> all4 (\<lambda>l. l = fst kinematics) kinematics \<and>
   toChassisSpeeds kinematics
     (toSwerveModuleStates kinematics \<lparr>vx = 1, vy = 2, omega = 3\<rparr> (0, 0))
     = \<lparr>vx = 1, vy = 2, omega = 3\<rparr>"
proof -
  have n: "\<not> all4 (\<lambda>l. l = fst kinematics) kinematics" by (simp add: kinematics_def)
  show ?thesis using kinematics_round_trip [OF n] n by blast
qed

subsection \<open>The vision step of periodic\<close>

text \<open>
  Claim C4. In \<^verbatim>\<open>periodic\<close> the vision measurement reaches the estimator only when
  the absolute angular rate is below the threshold (720) and the vision source reports at
  least one tag. Otherwise, and in particular with a tag count of zero, the vision step is
  skipped: the estimator after \<^verbatim>\<open>periodic\<close> is the estimator as the odometry update
  left it, and so is the pose it reports. The witness runs a vision source without tags,
  and next to it one with a tag, where the pose does change.
\<close>

theorem periodic_vision_guard:
  assumes "\<not> (\<bar>navxRate d\<bar> < 720 \<and>
              0 < tag_count (limelight (pose_rotation (getEstimatedPosition est (odometryUpdate est isReal d)))))"
  shows "odometry (periodic est limelight k isReal d) = odometryUpdate est isReal d \<and>
         getEstimatedPosition est (odometry (periodic est limelight k isReal d))
           = getEstimatedPosition est (odometryUpdate est isReal d)"
  using assms by (auto simp add: periodic_def Let_def)

theorem periodic_vision_guard_witness:
  "\<not> (\<bar>navxRate (drivetrainAt 30 10)\<bar> < 720 \<and>
       0 < tag_count (exampleLimelight 0 (pose_rotation (getEstimatedPosition exampleEstimator
             (odometryUpdate exampleEstimator True (drivetrainAt 30 10)))))) \<and>
   odometry (periodic exampleEstimator (exampleLimelight 0) exampleDrivetrainConstants True
               (drivetrainAt 30 10))
     = \<lparr>pose_x = 1, pose_y = 2, pose_rotation = 30\<rparr> \<and>
   odometry (periodic exampleEstimator (exampleLimelight 1) exampleDrivetrainConstants True
               (drivetrainAt 30 10))
     = \<lparr>pose_x = 5, pose_y = 5, pose_rotation = 30\<rparr>"
proof -
  have h: "\<not> (\<bar>navxRate (drivetrainAt 30 10)\<bar> < 720 \<and>
       0 < tag_count (exampleLimelight 0 (pose_rotation (getEstimatedPosition exampleEstimator
             (odometryUpdate exampleEstimator True (drivetrainAt 30 10))))))"
    by (simp add: exampleLimelight_def)
  have u: "odometryUpdate exampleEstimator True (drivetrainAt 30 10)
             = \<lparr>pose_x = 1, pose_y = 2, pose_rotation = 30\<rparr>"
    by (simp add: odometryUpdate_def exampleEstimator_def drivetrainAt_def get_yaw_def)
  have f: "odometry (periodic exampleEstimator (exampleLimelight 1) exampleDrivetrainConstants True
               (drivetrainAt 30 10)) = \<lparr>pose_x = 5, pose_y = 5, pose_rotation = 30\<rparr>"
    by (simp add: periodic_def Let_def u exampleLimelight_def)
      (simp add: exampleEstimator_def drivetrainAt_def)
  show ?thesis
    using periodic_vision_guard [where d = "drivetrainAt 30 10" and limelight = "exampleLimelight 0"
        and est = exampleEstimator and isReal = True and k = exampleDrivetrainConstants] h u f
    by simp
qed

subsection \<open>The reported robot speed\<close>

lemma changeDirection_sensors:
  assumes "changeDirection c m rotation = Inr m'"
  shows "directionSensorPosition m' = directionSensorPosition m \<and>
         driveSensorVelocity m' = driveSensorVelocity m"
  using assms
  by (auto simp add: changeDirection_def getAngle_def Let_def split: if_splits)

lemma setDesiredState_getState:
  assumes "setDesiredState c m ds opt = Inr m'"
  shows "getState c m' = getState c m"
proof -
  from assms obtain m1 r where cd: "changeDirection c m1 r = Inr m'"
    and m1: "directionSensorPosition m1 = directionSensorPosition m"
            "driveSensorVelocity m1 = driveSensorVelocity m"
    by (auto simp add: setDesiredState_def getState_def Let_def split: if_splits)
  from changeDirection_sensors [OF cd] m1 show ?thesis by (simp add: getState_def)
qed

lemma measuredStates_cong:
  assumes "getState c (leftFront a) = getState c (leftFront b)"
    and "getState c (leftRear a) = getState c (leftRear b)"
    and "getState c (rightFront a) = getState c (rightFront b)"
    and "getState c (rightRear a) = getState c (rightRear b)"
  shows "measuredStates c a = measuredStates c b"
  using assms by (simp add: measuredStates_def split: sum.splits)

lemma setModuleStates_effect:
  assumes "setModuleStates c sw states opt = Inr sw'"
  shows "chassisSpeed sw' = chassisSpeed sw \<and> measuredStates c sw' = measuredStates c sw"
proof -
  obtain s0 s1 s2 s3 where d: "desaturateWheelSpeeds states (kMaxSpeed c) = (s0, s1, s2, s3)"
    by (cases "desaturateWheelSpeeds states (kMaxSpeed c)") auto
  from assms d obtain lf lr rf rr where
    lf: "setDesiredState c (leftFront sw) s0 opt = Inr lf" and
    lr: "setDesiredState c (leftRear sw) s1 opt = Inr lr" and
    rf: "setDesiredState c (rightFront sw) s2 opt = Inr rf" and
    rr: "setDesiredState c (rightRear sw) s3 opt = Inr rr" and
    sw': "sw' = sw\<lparr>leftFront := lf, leftRear := lr, rightFront := rf, rightRear := rr\<rparr>"
    by (auto simp add: setModuleStates_def split: sum.splits)
  have "measuredStates c sw' = measuredStates c sw"
    using setDesiredState_getState [OF lf] setDesiredState_getState [OF lr]
      setDesiredState_getState [OF rf] setDesiredState_getState [OF rr]
    by (intro measuredStates_cong) (simp_all add: sw')
  then show ?thesis by (simp add: sw')
qed

lemma drive_effect:
  assumes "drive c isReal sw v fieldRelative = Inr sw'"
  shows "getChassisSpeeds sw' = v \<and> measuredStates c sw' = measuredStates c sw"
proof -
  from assms obtain sw1 where
    s: "setModuleStates c (sw\<lparr>chassisSpeed := v\<rparr>) (desatStates c isReal sw v fieldRelative) True = Inr sw1"
    and sw': "sw' = (if \<not> isReal then sw1\<lparr>targetRad := targetRad sw1 + omega v / 50\<rparr> else sw1)"
    by (auto simp add: drive_def split: sum.splits)
  from setModuleStates_effect [OF s]
  have "chassisSpeed sw1 = v" "measuredStates c sw1 = measuredStates c (sw\<lparr>chassisSpeed := v\<rparr>)"
    by simp_all
  moreover have "measuredStates c (sw\<lparr>chassisSpeed := v\<rparr>) = measuredStates c sw"
    by (intro measuredStates_cong) simp_all
  moreover have "measuredStates c sw' = measuredStates c sw1"
    unfolding sw' by (intro measuredStates_cong) simp_all
  moreover have "chassisSpeed sw' = chassisSpeed sw1" unfolding sw' by simp
  ultimately show ?thesis by (simp add: getChassisSpeeds_def)
qed

lemma get_robot_speed_after_dispatch:
  "get_robot_speed k (simulate_gyro (set_desired_module_states k d states) r) = get_robot_speed k d"
  by (cases "desaturateWheelSpeeds states (k_max_attainable_speed k)")
    (simp add: get_robot_speed_def simulate_gyro_def set_desired_module_states_def
      set_desired_state_def get_state_def)


lemma drive_total:
  assumes "kGearRatio c \<noteq> 0" "kMaxSpeed c \<noteq> 0"
  shows "\<exists>sw'. drive c isReal sw v fieldRelative = Inr sw'"
proof -
  from setModuleStates_total [OF assms] obtain sw1 where
    "setModuleStates c (sw\<lparr>chassisSpeed := v\<rparr>) (desatStates c isReal sw v fieldRelative) True = Inr sw1"
    by blast
  then show ?thesis by (simp add: drive_def)
qed

lemma example_drive_runs:
  "drive exampleConstants True (swerveAt exampleConstants 0) \<lparr>vx = 1, vy = 0, omega = 0\<rparr> False
     = Inr (projr (drive exampleConstants True (swerveAt exampleConstants 0)
                     \<lparr>vx = 1, vy = 0, omega = 0\<rparr> False))"
proof -
  have "kGearRatio exampleConstants \<noteq> 0" "kMaxSpeed exampleConstants \<noteq> 0"
    by (simp_all add: exampleConstants_def)
  from drive_total [OF this] obtain sw' where
    "drive exampleConstants True (swerveAt exampleConstants 0) \<lparr>vx = 1, vy = 0, omega = 0\<rparr> False
       = Inr sw'" by blast
  then show ?thesis by simp
qed

lemma measuredStates_at_rest:
  "measuredStates exampleConstants (swerveAt exampleConstants 0) = Inr (atSpeeds (0, 0, 0, 0))"
  by (simp add: measuredStates_def swerveAt_def getState_def moduleAt_def exampleConstants_def
      atSpeeds_def)

lemma toChassisSpeeds_at_rest:
  "toChassisSpeeds kinematics (atSpeeds (0, 0, 0, 0)) = \<lparr>vx = 0, vy = 0, omega = 0\<rparr>"
  by (simp add: toChassisSpeeds_def kinematics_def atSpeeds_def stateX_def stateY_def det3_def Let_def)



text \<open>
  Claim C7, amended. \<^verbatim>\<open>Drivetrain.get_robot_speed\<close> (drivetrain.py) is the forward
  kinematics of the states the four modules measure, and a drive command does not change
  it. \<^verbatim>\<open>Swerve.getChassisSpeeds\<close> (swerve.py) is the velocity stored by the last
  \<^verbatim>\<open>drive\<close> call, as it was passed in; the states the modules measure are not
  consulted and are not changed by that call.
\<close>

theorem robot_speed_sources:
  "get_robot_speed k d =
     toChassisSpeeds (moduleLocations k)
       (measuredState (left_front d), measuredState (left_rear d),
        measuredState (right_front d), measuredState (right_rear d)) \<and>
   get_robot_speed k (drive_robot_centric discretize k d v centre) = get_robot_speed k d \<and>
   get_robot_speed k (drive_field_relative discretize k isReal d v centre) = get_robot_speed k d \<and>
   (drive c isReal sw v fieldRelative = Inr sw' \<longrightarrow>
      getChassisSpeeds sw' = v \<and> measuredStates c sw' = measuredStates c sw)"
proof -
  have "get_robot_speed k d =
     toChassisSpeeds (moduleLocations k)
       (measuredState (left_front d), measuredState (left_rear d),
        measuredState (right_front d), measuredState (right_rear d))"
    by (simp add: get_robot_speed_def get_state_def)
  moreover have "get_robot_speed k (drive_robot_centric discretize k d v centre) = get_robot_speed k d"
    by (simp add: drive_robot_centric_def Let_def get_robot_speed_after_dispatch)
  moreover have "get_robot_speed k (drive_field_relative discretize k isReal d v centre) = get_robot_speed k d"
    by (simp add: drive_field_relative_def Let_def get_robot_speed_after_dispatch)
  ultimately show ?thesis using drive_effect [of c isReal sw v fieldRelative sw'] by blast
qed


theorem robot_speed_sources_witness:
  "drive exampleConstants True (swerveAt exampleConstants 0) \<lparr>vx = 1, vy = 0, omega = 0\<rparr> False
     = Inr (projr (drive exampleConstants True (swerveAt exampleConstants 0)
                     \<lparr>vx = 1, vy = 0, omega = 0\<rparr> False)) \<and>
   getChassisSpeeds (projr (drive exampleConstants True (swerveAt exampleConstants 0)
                     \<lparr>vx = 1, vy = 0, omega = 0\<rparr> False)) = \<lparr>vx = 1, vy = 0, omega = 0\<rparr> \<and>
   get_robot_speed exampleDrivetrainConstants
       (drive_robot_centric (\<lambda>v dt. v) exampleDrivetrainConstants (drivetrainAt 0 0)
          \<lparr>vx = 1, vy = 0, omega = 0\<rparr> (0, 0))
     = get_robot_speed exampleDrivetrainConstants (drivetrainAt 0 0)"
  using robot_speed_sources [where c = exampleConstants and isReal = True
      and sw = "swerveAt exampleConstants 0" and v = "\<lparr>vx = 1, vy = 0, omega = 0\<rparr>"
      and fieldRelative = False
      and sw' = "projr (drive exampleConstants True (swerveAt exampleConstants 0)
                     \<lparr>vx = 1, vy = 0, omega = 0\<rparr> False)"
      and k = exampleDrivetrainConstants and d = "drivetrainAt 0 0"
      and discretize = "\<lambda>v dt. v" and centre = "(0, 0)"]
    example_drive_runs
  by blast



text \<open>
  In swerve.py the claim fails: after \<^verbatim>\<open>drive\<close> with a forward velocity of 1 on a
  drivetrain whose wheels stand still, \<^verbatim>\<open>getChassisSpeeds\<close> reports 1 while the
  forward kinematics of the measured states is zero.
\<close>

theorem getChassisSpeeds_stored_counterexample:
  "getChassisSpeeds (projr (drive exampleConstants True (swerveAt exampleConstants 0)
                     \<lparr>vx = 1, vy = 0, omega = 0\<rparr> False))
     \<noteq> toChassisSpeeds kinematics (atSpeeds (0, 0, 0, 0)) \<and>
   getChassisSpeeds (projr (drive exampleConstants True (swerveAt exampleConstants 0)
                     \<lparr>vx = 1, vy = 0, omega = 0\<rparr> False)) = \<lparr>vx = 1, vy = 0, omega = 0\<rparr> \<and>
   measuredStates exampleConstants
       (projr (drive exampleConstants True (swerveAt exampleConstants 0)
                 \<lparr>vx = 1, vy = 0, omega = 0\<rparr> False))
     = Inr (atSpeeds (0, 0, 0, 0)) \<and>
   toChassisSpeeds kinematics (atSpeeds (0, 0, 0, 0)) = \<lparr>vx = 0, vy = 0, omega = 0\<rparr> \<and>
   \<not> isl (drive exampleConstants True (swerveAt exampleConstants 0)
            \<lparr>vx = 1, vy = 0, omega = 0\<rparr> False)"
proof -
  note e = drive_effect [OF example_drive_runs]
  have "\<not> isl (drive exampleConstants True (swerveAt exampleConstants 0)
            \<lparr>vx = 1, vy = 0, omega = 0\<rparr> False)"
    by (subst example_drive_runs) simp
  with e measuredStates_at_rest toChassisSpeeds_at_rest show ?thesis by simp
qed

subsection \<open>Desaturated states reach the modules\<close>

lemma dispatched_after_set:
  "dispatchedStates (set_desired_module_states dk d states)
     = map4 Some (desaturateWheelSpeeds states (k_max_attainable_speed dk))"
  by (cases "desaturateWheelSpeeds states (k_max_attainable_speed dk)")
    (simp add: dispatchedStates_def set_desired_module_states_def set_desired_state_def)

lemma optimize_speed_abs: "\<bar>speed (optimize s a)\<bar> = \<bar>speed s\<bar>"
  by (simp add: optimize_def Let_def)

lemma setDesiredState_output:
  assumes "setDesiredState c m s opt = Inr m'"
  shows "\<bar>driveOutput m'\<bar> = \<bar>speed s\<bar> / \<bar>kMaxSpeed c\<bar>"
proof -
  from assms have g: "kGearRatio c \<noteq> 0" and k: "kMaxSpeed c \<noteq> 0"
    by (auto simp add: setDesiredState_def getState_def Let_def split: if_splits)
  let ?cur = "directionSensorPosition m / kGearRatio c * (360 / 2048)"
  let ?s' = "if opt then optimize s ?cur else s"
  let ?m1 = "m\<lparr>driveOutput := speed ?s' / kMaxSpeed c,
                driveFeedForward := (if speed ?s' < 0 then - arbFF m else arbFF m)\<rparr>"
  have run: "setDesiredState c m s opt = changeDirection c ?m1 (angle ?s')"
    using setDesiredState_run [OF g k, of m s opt] by (simp add: Let_def)
  from changeDirection_rotation [OF g, of ?m1 "angle ?s'"] run assms
  have "driveOutput m' = speed ?s' / kMaxSpeed c" by auto
  then show ?thesis by (simp add: optimize_speed_abs)
qed

lemma setModuleStates_dispatch:
  assumes "kGearRatio c \<noteq> 0" "kMaxSpeed c \<noteq> 0"
    and "desaturateWheelSpeeds states (kMaxSpeed c) = (s0, s1, s2, s3)"
  shows "\<exists>sw'. setModuleStates c sw states opt = Inr sw' \<and>
           setDesiredState c (leftFront sw) s0 opt = Inr (leftFront sw') \<and>
           setDesiredState c (leftRear sw) s1 opt = Inr (leftRear sw') \<and>
           setDesiredState c (rightFront sw) s2 opt = Inr (rightFront sw') \<and>
           setDesiredState c (rightRear sw) s3 opt = Inr (rightRear sw')"
proof -
  from setDesiredState_total [OF assms(1,2)] obtain lf lr rf rr where
    "setDesiredState c (leftFront sw) s0 opt = Inr lf"
    "setDesiredState c (leftRear sw) s1 opt = Inr lr"
    "setDesiredState c (rightFront sw) s2 opt = Inr rf"
    "setDesiredState c (rightRear sw) s3 opt = Inr rr"
    by metis
  then show ?thesis by (simp add: setModuleStates_def assms(3))
qed

text \<open>
  Claim C3. For every four module states and every maximum speed \<open>m \<ge> 0\<close> (a speed
  limit; the code passes its constant \<^verbatim>\<open>kMaxSpeed\<close> or
  \<^verbatim>\<open>k_max_attainable_speed\<close>), desaturation multiplies the four speeds by one
  factor between 0 and 1 and keeps the angles: no speed grows in magnitude, the ratios
  between the speeds are kept, and afterwards no magnitude exceeds \<open>m\<close>. An
  out-of-range command raises no error: \<^verbatim>\<open>setModuleStates\<close> (swerve.py) hands each
  module its desaturated state, every drive output stays within \<open>[-1, 1]\<close>, and
  \<^verbatim>\<open>set_desired_module_states\<close> (drivetrain.py) hands the four modules the
  desaturated states. The witness runs the scenario of the spec: speeds 10, 15, 8, 12 with
  maximum 10 become 20/3, 10, 16/3, 8.
\<close>

theorem desaturate_scales_uniformly:
  assumes "0 \<le> m"
  shows "(\<exists>k. 0 \<le> k \<and> k \<le> 1 \<and>
            desaturateWheelSpeeds states m = map4 (\<lambda>s. s\<lparr>speed := k * speed s\<rparr>) states) \<and>
         all4 (\<lambda>p. \<bar>speed (snd p)\<bar> \<le> \<bar>speed (fst p)\<bar> \<and> angle (snd p) = angle (fst p))
           (zip4 states (desaturateWheelSpeeds states m)) \<and>
         realMaxSpeed (desaturateWheelSpeeds states m) \<le> m \<and>
         (kMaxSpeed c = m \<and> kMaxSpeed c \<noteq> 0 \<and> kGearRatio c \<noteq> 0 \<longrightarrow>
            (\<exists>sw' s0 s1 s2 s3.
               desaturateWheelSpeeds states m = (s0, s1, s2, s3) \<and>
               setModuleStates c sw states opt = Inr sw' \<and>
               setDesiredState c (leftFront sw) s0 opt = Inr (leftFront sw') \<and>
               setDesiredState c (leftRear sw) s1 opt = Inr (leftRear sw') \<and>
               setDesiredState c (rightFront sw) s2 opt = Inr (rightFront sw') \<and>
               setDesiredState c (rightRear sw) s3 opt = Inr (rightRear sw') \<and>
               \<bar>driveOutput (leftFront sw')\<bar> \<le> 1 \<and> \<bar>driveOutput (leftRear sw')\<bar> \<le> 1 \<and>
               \<bar>driveOutput (rightFront sw')\<bar> \<le> 1 \<and> \<bar>driveOutput (rightRear sw')\<bar> \<le> 1)) \<and>
         (k_max_attainable_speed dk = m \<longrightarrow>
            dispatchedStates (set_desired_module_states dk d states)
              = map4 Some (desaturateWheelSpeeds states m))"
proof -
  from desaturate_factor [OF assms, of states] obtain k where k: "0 \<le> k" "k \<le> 1"
    and eq: "desaturateWheelSpeeds states m = map4 (\<lambda>s. s\<lparr>speed := k * speed s\<rparr>) states"
    and le: "k * realMaxSpeed states \<le> m" by blast
  have a: "all4 (\<lambda>p. \<bar>speed (snd p)\<bar> \<le> \<bar>speed (fst p)\<bar> \<and> angle (snd p) = angle (fst p))
           (zip4 states (desaturateWheelSpeeds states m))"
    unfolding eq by (rule scaled_not_larger [OF k])
  have b: "realMaxSpeed (desaturateWheelSpeeds states m) \<le> m"
    unfolding eq using realMaxSpeed_scale [OF k(1), of states] le by simp
  have c: "\<exists>sw' s0 s1 s2 s3.
               desaturateWheelSpeeds states m = (s0, s1, s2, s3) \<and>
               setModuleStates c sw states opt = Inr sw' \<and>
               setDesiredState c (leftFront sw) s0 opt = Inr (leftFront sw') \<and>
               setDesiredState c (leftRear sw) s1 opt = Inr (leftRear sw') \<and>
               setDesiredState c (rightFront sw) s2 opt = Inr (rightFront sw') \<and>
               setDesiredState c (rightRear sw) s3 opt = Inr (rightRear sw') \<and>
               \<bar>driveOutput (leftFront sw')\<bar> \<le> 1 \<and> \<bar>driveOutput (leftRear sw')\<bar> \<le> 1 \<and>
               \<bar>driveOutput (rightFront sw')\<bar> \<le> 1 \<and> \<bar>driveOutput (rightRear sw')\<bar> \<le> 1"
    if km: "kMaxSpeed c = m" and k0: "kMaxSpeed c \<noteq> 0" and g0: "kGearRatio c \<noteq> 0"
  proof -
    obtain s0 s1 s2 s3 where d: "desaturateWheelSpeeds states m = (s0, s1, s2, s3)"
      by (cases "desaturateWheelSpeeds states m") auto
    from setModuleStates_dispatch [OF g0 k0, of states s0 s1 s2 s3 sw opt] d km
    obtain sw' where run: "setModuleStates c sw states opt = Inr sw'"
      and lf: "setDesiredState c (leftFront sw) s0 opt = Inr (leftFront sw')"
      and lr: "setDesiredState c (leftRear sw) s1 opt = Inr (leftRear sw')"
      and rf: "setDesiredState c (rightFront sw) s2 opt = Inr (rightFront sw')"
      and rr: "setDesiredState c (rightRear sw) s3 opt = Inr (rightRear sw')"
      by auto
    from realMaxSpeed_ge [of "desaturateWheelSpeeds states m"] b d
    have sp: "\<bar>speed s0\<bar> \<le> m" "\<bar>speed s1\<bar> \<le> m" "\<bar>speed s2\<bar> \<le> m" "\<bar>speed s3\<bar> \<le> m"
      by auto
    have mpos: "0 < m" using assms km k0 by simp
    have bound: "\<bar>speed s\<bar> / \<bar>kMaxSpeed c\<bar> \<le> 1" if "\<bar>speed s\<bar> \<le> m" for s :: SwerveModuleState
      using that mpos km by simp
    from setDesiredState_output [OF lf] setDesiredState_output [OF lr]
      setDesiredState_output [OF rf] setDesiredState_output [OF rr] bound sp
    have "\<bar>driveOutput (leftFront sw')\<bar> \<le> 1" "\<bar>driveOutput (leftRear sw')\<bar> \<le> 1"
      "\<bar>driveOutput (rightFront sw')\<bar> \<le> 1" "\<bar>driveOutput (rightRear sw')\<bar> \<le> 1"
      by simp_all
    with d run lf lr rf rr show ?thesis by blast
  qed
  have e: "dispatchedStates (set_desired_module_states dk d states)
              = map4 Some (desaturateWheelSpeeds states m)" if "k_max_attainable_speed dk = m"
    using that by (simp add: dispatched_after_set)
  from k eq have s: "\<exists>k. 0 \<le> k \<and> k \<le> 1 \<and>
            desaturateWheelSpeeds states m = map4 (\<lambda>s. s\<lparr>speed := k * speed s\<rparr>) states"
    by blast
  show ?thesis
  proof (intro conjI)
    show "kMaxSpeed c = m \<and> kMaxSpeed c \<noteq> 0 \<and> kGearRatio c \<noteq> 0 \<longrightarrow>
            (\<exists>sw' s0 s1 s2 s3.
               desaturateWheelSpeeds states m = (s0, s1, s2, s3) \<and>
               setModuleStates c sw states opt = Inr sw' \<and>
               setDesiredState c (leftFront sw) s0 opt = Inr (leftFront sw') \<and>
               setDesiredState c (leftRear sw) s1 opt = Inr (leftRear sw') \<and>
               setDesiredState c (rightFront sw) s2 opt = Inr (rightFront sw') \<and>
               setDesiredState c (rightRear sw) s3 opt = Inr (rightRear sw') \<and>
               \<bar>driveOutput (leftFront sw')\<bar> \<le> 1 \<and> \<bar>driveOutput (leftRear sw')\<bar> \<le> 1 \<and>
               \<bar>driveOutput (rightFront sw')\<bar> \<le> 1 \<and> \<bar>driveOutput (rightRear sw')\<bar> \<le> 1)"
      using c by (intro impI) (elim conjE)
    show "k_max_attainable_speed dk = m \<longrightarrow>
            dispatchedStates (set_desired_module_states dk d states)
              = map4 Some (desaturateWheelSpeeds states m)"
      using e by (intro impI)
  qed (rule s a b)+
qed

lemma scenario_desaturated:
  "map4 speed (desaturateWheelSpeeds scenarioStates 10) = (20 / 3, 10, 16 / 3, 8)"
  by (simp add: scenarioStates_def desaturateWheelSpeeds_def atSpeeds_def realMaxSpeed_def Let_def)

theorem desaturate_scales_uniformly_witness:
  "(0::real) \<le> 10 \<and>
   kMaxSpeed scenarioConstants = 10 \<and> kMaxSpeed scenarioConstants \<noteq> 0 \<and>
   kGearRatio scenarioConstants \<noteq> 0 \<and>
   k_max_attainable_speed scenarioDrivetrainConstants = 10 \<and>
   map4 speed (desaturateWheelSpeeds scenarioStates 10) = (20 / 3, 10, 16 / 3, 8) \<and>
   (\<exists>k. 0 \<le> k \<and> k \<le> 1 \<and>
      desaturateWheelSpeeds scenarioStates 10
        = map4 (\<lambda>s. s\<lparr>speed := k * speed s\<rparr>) scenarioStates) \<and>
   all4 (\<lambda>p. \<bar>speed (snd p)\<bar> \<le> \<bar>speed (fst p)\<bar> \<and> angle (snd p) = angle (fst p))
     (zip4 scenarioStates (desaturateWheelSpeeds scenarioStates 10)) \<and>
   realMaxSpeed (desaturateWheelSpeeds scenarioStates 10) \<le> 10 \<and>
   (\<exists>sw' s0 s1 s2 s3.
      desaturateWheelSpeeds scenarioStates 10 = (s0, s1, s2, s3) \<and>
      setModuleStates scenarioConstants (swerveAt scenarioConstants 0) scenarioStates True = Inr sw' \<and>
      setDesiredState scenarioConstants (leftFront (swerveAt scenarioConstants 0)) s0 True
        = Inr (leftFront sw') \<and>
      setDesiredState scenarioConstants (leftRear (swerveAt scenarioConstants 0)) s1 True
        = Inr (leftRear sw') \<and>
      setDesiredState scenarioConstants (rightFront (swerveAt scenarioConstants 0)) s2 True
        = Inr (rightFront sw') \<and>
      setDesiredState scenarioConstants (rightRear (swerveAt scenarioConstants 0)) s3 True
        = Inr (rightRear sw') \<and>
      \<bar>driveOutput (leftFront sw')\<bar> \<le> 1 \<and> \<bar>driveOutput (leftRear sw')\<bar> \<le> 1 \<and>
      \<bar>driveOutput (rightFront sw')\<bar> \<le> 1 \<and> \<bar>driveOutput (rightRear sw')\<bar> \<le> 1) \<and>
   dispatchedStates (set_desired_module_states scenarioDrivetrainConstants (drivetrainAt 0 0)
                       scenarioStates)
     = map4 Some (desaturateWheelSpeeds scenarioStates 10)"
proof -
  have z: "(0::real) \<le> 10" by simp
  have c: "kMaxSpeed scenarioConstants = 10" "kMaxSpeed scenarioConstants \<noteq> 0"
    "kGearRatio scenarioConstants \<noteq> 0"
    by (simp_all add: scenarioConstants_def exampleConstants_def)
  have d: "k_max_attainable_speed scenarioDrivetrainConstants = 10"
    by (simp add: scenarioDrivetrainConstants_def)
  note th = desaturate_scales_uniformly [OF z, where states = scenarioStates
        and c = scenarioConstants and sw = "swerveAt scenarioConstants 0" and opt = True
        and dk = scenarioDrivetrainConstants and d = "drivetrainAt 0 0"]
  note p1 = th [THEN conjunct1]
  note p2 = th [THEN conjunct2, THEN conjunct1]
  note p3 = th [THEN conjunct2, THEN conjunct2, THEN conjunct1]
  note p4 = th [THEN conjunct2, THEN conjunct2, THEN conjunct2, THEN conjunct1, THEN mp,
      OF conjI [OF c(1) conjI [OF c(2) c(3)]]]
  note p5 = th [THEN conjunct2, THEN conjunct2, THEN conjunct2, THEN conjunct2, THEN mp, OF d]
  show ?thesis
    using z c d scenario_desaturated p1 p2 p3 p4 p5 by - (intro conjI; assumption)
qed

subsection \<open>Field-relative driving in simulation\<close>

lemma small_angle: "0 < pi * pi / 360" "pi * pi / 360 < pi / 2"
proof -
  show "0 < pi * pi / 360" by simp
  have "pi * pi < pi * 180" using pi_less_4 by (intro mult_strict_left_mono) simp_all
  then show "pi * pi / 360 < pi / 2" by simp
qed

lemma cos_small_pos: "0 < cos (pi * pi / 360)"
  using small_angle by (intro cos_gt_zero) simp_all

lemma atan2_of_small:
  assumes "0 < t" "t < pi / 2"
  shows "atan2 (- sin t) (cos t) = - t"
proof -
  have c: "0 < cos t" using assms by (intro cos_gt_zero) simp_all
  have "arctan (tan (- t)) = - t" using assms by (intro arctan_tan) simp_all
  moreover have "tan (- t) = - sin t / cos t" by (simp add: tan_def)
  ultimately show ?thesis using c by (simp add: atan2_def)
qed

lemma translation_states:
  assumes "omega v = 0" "sqrt ((vx v)\<^sup>2 + (vy v)\<^sup>2) \<le> m"
  shows "desaturateWheelSpeeds (toSwerveModuleStates kinematics v (0, 0)) m
           = map4 (\<lambda>l. polarState (vx v, vy v)) kinematics"
proof -
  have t: "toSwerveModuleStates kinematics v (0, 0) = map4 (\<lambda>l. polarState (vx v, vy v)) kinematics"
    using assms(1) by (simp add: toSwerveModuleStates_def moduleVelocity_def kinematics_def)
  have "realMaxSpeed (map4 (\<lambda>l. polarState (vx v, vy v)) kinematics) = sqrt ((vx v)\<^sup>2 + (vy v)\<^sup>2)"
    by (simp add: realMaxSpeed_def kinematics_def polarState_def)
  then show ?thesis using assms(2) by (simp add: t desaturateWheelSpeeds_def Let_def)
qed

lemma simulated_field_states:
  "desatStates exampleConstants False (simulatedSwerve exampleConstants (pi / 2))
     \<lparr>vx = 1, vy = 0, omega = 0\<rparr> True
     = map4 (\<lambda>l. polarState (cos (pi * pi / 360), - sin (pi * pi / 360))) kinematics"
proof -
  have a: "pi / 2 * pi / 180 = pi * pi / 360" by simp
  have f: "fromFieldRelativeSpeeds \<lparr>vx = 1, vy = 0, omega = 0\<rparr> (pi / 2)
             = \<lparr>vx = cos (pi * pi / 360), vy = - sin (pi * pi / 360), omega = 0\<rparr>"
    by (simp add: fromFieldRelativeSpeeds_def cosDeg_def sinDeg_def a)
  have "sqrt ((cos (pi * pi / 360))\<^sup>2 + (- sin (pi * pi / 360))\<^sup>2) = 1" by simp
  then have "desaturateWheelSpeeds
          (toSwerveModuleStates kinematics
             \<lparr>vx = cos (pi * pi / 360), vy = - sin (pi * pi / 360), omega = 0\<rparr> (0, 0))
          (kMaxSpeed exampleConstants)
        = map4 (\<lambda>l. polarState (cos (pi * pi / 360), - sin (pi * pi / 360))) kinematics"
    using translation_states [of "\<lparr>vx = cos (pi * pi / 360), vy = - sin (pi * pi / 360), omega = 0\<rparr>"
        "kMaxSpeed exampleConstants"]
    by (simp add: exampleConstants_def)
  then show ?thesis
    by (simp add: desatStates_def simulatedSwerve_def swerveAt_def f)
qed

lemma robot_centric_states:
  assumes "\<bar>y\<bar> \<le> kMaxSpeed c"
  shows "desatStates c isReal sw \<lparr>vx = 0, vy = y, omega = 0\<rparr> False
           = map4 (\<lambda>l. polarState (0, y)) kinematics"
  using translation_states [of "\<lparr>vx = 0, vy = y, omega = 0\<rparr>" "kMaxSpeed c"] assms
  by (simp add: desatStates_def)

lemma setDesiredState_rotation:
  assumes "setDesiredState c m s opt = Inr m'"
  shows "commandedRotation c m m'
           = wrap180 (angle (if opt then optimize s (directionSensorPosition m / kGearRatio c * (360 / 2048)) else s)
                        - directionSensorPosition m / kGearRatio c * (360 / 2048))"
proof -
  from assms have g: "kGearRatio c \<noteq> 0" and k: "kMaxSpeed c \<noteq> 0"
    by (auto simp add: setDesiredState_def getState_def Let_def split: if_splits)
  let ?cur = "directionSensorPosition m / kGearRatio c * (360 / 2048)"
  let ?s' = "if opt then optimize s ?cur else s"
  let ?m1 = "m\<lparr>driveOutput := speed ?s' / kMaxSpeed c,
                driveFeedForward := (if speed ?s' < 0 then - arbFF m else arbFF m)\<rparr>"
  have run: "setDesiredState c m s opt = changeDirection c ?m1 (angle ?s')"
    using setDesiredState_run [OF g k, of m s opt] by (simp add: Let_def)
  from changeDirection_rotation [OF g, of ?m1 "angle ?s'"] run assms
  have "commandedRotation c ?m1 m' = wrap180 (angle ?s' - ?cur)" by auto
  then show ?thesis by (simp add: commandedRotation_def)
qed

lemma drive_left_front:
  assumes "0 < kMaxSpeed c" "kGearRatio c \<noteq> 0"
  shows "\<not> isl (drive c isReal sw v fieldRelative) \<and>
         setDesiredState c (leftFront sw) (fst (desatStates c isReal sw v fieldRelative)) True
           = Inr (leftFront (projr (drive c isReal sw v fieldRelative)))"
proof -
  let ?ds = "desatStates c isReal sw v fieldRelative"
  have k0: "kMaxSpeed c \<noteq> 0" using assms(1) by simp
  have idem: "desaturateWheelSpeeds ?ds (kMaxSpeed c) = ?ds"
    using assms(1) by (simp add: desatStates_def Let_def desaturate_idem)
  obtain s0 s1 s2 s3 where d: "?ds = (s0, s1, s2, s3)" by (cases ?ds) auto
  from setModuleStates_dispatch [OF assms(2) k0, of ?ds s0 s1 s2 s3 "sw\<lparr>chassisSpeed := v\<rparr>" True]
    idem d
  obtain sw1 where run: "setModuleStates c (sw\<lparr>chassisSpeed := v\<rparr>) ?ds True = Inr sw1"
    and lf: "setDesiredState c (leftFront sw) s0 True = Inr (leftFront sw1)"
    by auto
  have dr: "drive c isReal sw v fieldRelative
              = Inr (if \<not> isReal then sw1\<lparr>targetRad := targetRad sw1 + omega v / 50\<rparr> else sw1)"
    by (simp add: drive_def run)
  have "leftFront (projr (drive c isReal sw v fieldRelative)) = leftFront sw1"
    by (simp add: dr)
  with lf d dr show ?thesis by simp
qed

lemma wrap180_id: "- 180 < a \<Longrightarrow> a \<le> 180 \<Longrightarrow> wrap180 a = a"
  by (rule wrap180_unique [where k = 0]) simp_all

lemma front_at_zero:
  "directionSensorPosition (leftFront (simulatedSwerve exampleConstants r))
     / kGearRatio exampleConstants * (360 / 2048) = 0"
  by (simp add: simulatedSwerve_def swerveAt_def moduleAt_def)

lemma rotation_of_kept_state:
  assumes "setDesiredState exampleConstants (leftFront (simulatedSwerve exampleConstants r)) s True
             = Inr m'"
    and "- 90 \<le> angle s" "angle s \<le> 90"
  shows "commandedRotation exampleConstants (leftFront (simulatedSwerve exampleConstants r)) m'
           = angle s"
proof -
  have w: "wrap180 (angle s) = angle s" using assms(2,3) by (intro wrap180_id) simp_all
  then have "optimize s 0 = s" using assms(2,3) by (simp add: optimize_def Let_def)
  with setDesiredState_rotation [OF assms(1), unfolded front_at_zero if_True] w show ?thesis
    by simp
qed

text \<open>
  Claim C6. The claim fails in the simulation branch of \<^verbatim>\<open>Swerve.drive\<close>: line 213
  passes \<open>targetRad\<close>, a heading in radians, to \<^verbatim>\<open>Rotation2d.fromDegrees\<close>. At a
  simulated heading of 90 degrees (\<open>targetRad = pi / 2\<close>) the field-relative command
  \<open>(1, 0, 0)\<close> is turned by \<open>pi / 2\<close> degrees only: the wheels keep a forward component
  of \<open>cos (pi\<^sup>2 / 360)\<close>, which is positive, and are steered by \<open>pi / 2\<close> degrees, whereas the
  robot-centric command \<open>(0, 1, 0)\<close> has no forward component and steers them by 90
  degrees. Neither value depends on the direction in which the library turns the velocity.
\<close>

theorem drive_simulation_heading_in_degrees:
  "simulatedHeading (simulatedSwerve exampleConstants (pi / 2)) = 90 \<and>
   stateX (fst (desatStates exampleConstants False (simulatedSwerve exampleConstants (pi / 2))
                  \<lparr>vx = 1, vy = 0, omega = 0\<rparr> True)) = cos (pi * pi / 360) \<and>
   0 < cos (pi * pi / 360) \<and>
   stateX (fst (desatStates exampleConstants False (simulatedSwerve exampleConstants (pi / 2))
                  \<lparr>vx = 0, vy = 1, omega = 0\<rparr> False)) = 0 \<and>
   \<not> isl (drive exampleConstants False (simulatedSwerve exampleConstants (pi / 2))
            \<lparr>vx = 1, vy = 0, omega = 0\<rparr> True) \<and>
   \<bar>commandedRotation exampleConstants
      (leftFront (simulatedSwerve exampleConstants (pi / 2)))
      (leftFront (projr (drive exampleConstants False (simulatedSwerve exampleConstants (pi / 2))
                           \<lparr>vx = 1, vy = 0, omega = 0\<rparr> True)))\<bar> = pi / 2 \<and>
   \<not> isl (drive exampleConstants False (simulatedSwerve exampleConstants (pi / 2))
            \<lparr>vx = 0, vy = 1, omega = 0\<rparr> False) \<and>
   commandedRotation exampleConstants
      (leftFront (simulatedSwerve exampleConstants (pi / 2)))
      (leftFront (projr (drive exampleConstants False (simulatedSwerve exampleConstants (pi / 2))
                           \<lparr>vx = 0, vy = 1, omega = 0\<rparr> False))) = 90 \<and>
   pi / 2 < (90::real)"
proof -
  let ?sw = "simulatedSwerve exampleConstants (pi / 2)"
  let ?t = "pi * pi / 360"
  have c: "0 < kMaxSpeed exampleConstants" "kGearRatio exampleConstants \<noteq> 0"
    by (simp_all add: exampleConstants_def)
  have h: "simulatedHeading ?sw = 90"
    by (simp add: simulatedHeading_def simulatedSwerve_def)
  have f: "fst (desatStates exampleConstants False ?sw \<lparr>vx = 1, vy = 0, omega = 0\<rparr> True)
             = polarState (cos ?t, - sin ?t)"
    by (simp add: simulated_field_states kinematics_def)
  have r: "fst (desatStates exampleConstants False ?sw \<lparr>vx = 0, vy = 1, omega = 0\<rparr> False)
             = polarState (0, 1)"
    using robot_centric_states [of 1 exampleConstants False ?sw]
    by (simp add: exampleConstants_def kinematics_def)
  have fx: "stateX (fst (desatStates exampleConstants False ?sw \<lparr>vx = 1, vy = 0, omega = 0\<rparr> True))
              = cos ?t"
    by (simp add: f stateX_polarState)
  have rx: "stateX (fst (desatStates exampleConstants False ?sw \<lparr>vx = 0, vy = 1, omega = 0\<rparr> False)) = 0"
    by (simp add: r stateX_polarState)
  have fa: "angle (polarState (cos ?t, - sin ?t)) = - (pi / 2)"
    using atan2_of_small [OF small_angle] by (simp add: polarState_def rotationOf_def)
  have ra: "angle (polarState (0, 1)) = 90"
    by (simp add: polarState_def rotationOf_def atan2_def)
  have p: "pi / 2 < (90::real)" using pi_less_4 by simp
  have p0: "0 < pi / 2" by simp
  note df = drive_left_front [OF c, of False ?sw "\<lparr>vx = 1, vy = 0, omega = 0\<rparr>" True]
  note dr = drive_left_front [OF c, of False ?sw "\<lparr>vx = 0, vy = 1, omega = 0\<rparr>" False]
  have cf: "commandedRotation exampleConstants (leftFront ?sw)
              (leftFront (projr (drive exampleConstants False ?sw \<lparr>vx = 1, vy = 0, omega = 0\<rparr> True)))
              = - (pi / 2)"
    using rotation_of_kept_state [OF df [THEN conjunct2, unfolded f]] fa p p0 by simp
  have cr: "commandedRotation exampleConstants (leftFront ?sw)
              (leftFront (projr (drive exampleConstants False ?sw \<lparr>vx = 0, vy = 1, omega = 0\<rparr> False)))
              = 90"
    using rotation_of_kept_state [OF dr [THEN conjunct2, unfolded r]] ra by simp
  from cf p0 have cf': "\<bar>commandedRotation exampleConstants (leftFront ?sw)
              (leftFront (projr (drive exampleConstants False ?sw \<lparr>vx = 1, vy = 0, omega = 0\<rparr> True)))\<bar>
              = pi / 2" by simp
  from h fx cos_small_pos rx df [THEN conjunct1] cf' dr [THEN conjunct1] cr p
  show ?thesis by - (intro conjI; assumption)
qed

end
